theory Spec2Isabelle
  imports Complex_Main
begin

section \<open>Strings\<close>

text \<open>
  Python strings are sequences of code points; they are modelled as \<^typ>\<open>string\<close>, each
  \<^typ>\<open>char\<close> standing for the code point of the same number (so the model covers the code
  points below 256). The library functions the extractor calls on strings are written out
  below with the behaviour Python documents for them.
\<close>

definition is_space :: "char \<Rightarrow> bool" where
  \<comment> \<open>\<open>str.isspace\<close> and the regular expression class \<open>\s\<close> on one code point\<close>
  "is_space c = (of_char c \<in> {9, 10, 11, 12, 13, 28, 29, 30, 31, 32, 133, 160 :: nat})"

definition is_linebreak :: "char \<Rightarrow> bool" where
  \<comment> \<open>the line boundaries of \<open>str.splitlines\<close>\<close>
  "is_linebreak c = (of_char c \<in> {10, 11, 12, 13, 28, 29, 30, 133 :: nat})"

definition lstrip :: "string \<Rightarrow> string" where
  "lstrip s = dropWhile is_space s"

definition rstrip :: "string \<Rightarrow> string" where
  "rstrip s = rev (dropWhile is_space (rev s))"

definition strip :: "string \<Rightarrow> string" where
  \<comment> \<open>\<open>str.strip()\<close>\<close>
  "strip s = rstrip (lstrip s)"

fun splitlines_aux :: "string \<Rightarrow> string \<Rightarrow> string list" where
  "splitlines_aux cur [] = (if cur = [] then [] else [cur])"
| "splitlines_aux cur [c] =
     (if is_linebreak c then [cur] else [cur @ [c]])"
| "splitlines_aux cur (c # d # cs) =
     (if c = CHR 0x0D \<and> d = CHR 0x0A then cur # splitlines_aux [] cs
      else if is_linebreak c then cur # splitlines_aux [] (d # cs)
      else splitlines_aux (cur @ [c]) (d # cs))"

definition splitlines :: "string \<Rightarrow> string list" where
  \<comment> \<open>\<open>str.splitlines()\<close>: the boundaries are dropped, \<open>\r\n\<close> is one boundary, and a
      boundary at the very end opens no further line\<close>
  "splitlines s = splitlines_aux [] s"

fun join :: "string \<Rightarrow> string list \<Rightarrow> string" where
  \<comment> \<open>\<open>sep.join(xs)\<close>\<close>
  "join sep [] = []"
| "join sep [x] = x"
| "join sep (x # y # ys) = x @ sep @ join sep (y # ys)"

fun contains :: "string \<Rightarrow> string \<Rightarrow> bool" where
  \<comment> \<open>\<open>sub in s\<close>\<close>
  "contains sub [] = (sub = [])"
| "contains sub (c # cs) = (take (length sub) (c # cs) = sub \<or> contains sub cs)"

function collapse_ws :: "string \<Rightarrow> string" where
  \<comment> \<open>\<open>re.sub(r"\s+", " ", s)\<close>: every maximal run of white space becomes one blank\<close>
  "collapse_ws [] = []"
| "collapse_ws (c # cs) =
     (if is_space c then CHR '' '' # collapse_ws (dropWhile is_space cs)
      else c # collapse_ws cs)"
  by pat_completeness auto
termination
  by (relation "measure length") (simp_all add: length_dropWhile_le le_imp_less_Suc)



definition b64_alphabet :: string where
  "b64_alphabet = ''ABCDEFGHIJKLMNOPQRSTUVWXYZabcdefghijklmnopqrstuvwxyz0123456789+/''"

definition b64_digit :: "nat \<Rightarrow> char" where
  "b64_digit n = b64_alphabet ! (n mod 64)"

fun b64_groups :: "nat list \<Rightarrow> string" where
  "b64_groups [] = []"
| "b64_groups [a] =
     [b64_digit (a div 4), b64_digit ((a mod 4) * 16), CHR ''='', CHR ''='']"
| "b64_groups [a, b] =
     [b64_digit (a div 4), b64_digit ((a mod 4) * 16 + b div 16),
      b64_digit ((b mod 16) * 4), CHR ''='']"
| "b64_groups (a # b # c # bs) =
     [b64_digit (a div 4), b64_digit ((a mod 4) * 16 + b div 16),
      b64_digit ((b mod 16) * 4 + c div 64), b64_digit (c mod 64)] @ b64_groups bs"

definition b64encode :: "string \<Rightarrow> string" where
  \<comment> \<open>\<open>base64.b64encode(blob).decode("utf-8")\<close>; a byte string is a list of \<^typ>\<open>char\<close>\<close>
  "b64encode blob = b64_groups (map of_char blob)"

section \<open>Text reflow heuristic: \<open>merge_lines\<close>\<close>

definition terminal_chars :: "char set" where
  "terminal_chars = {CHR ''.'', CHR ''!'', CHR ''?'', CHR '':'', CHR 0x22, CHR 0x27}"

definition ends_terminal :: "string \<Rightarrow> bool" where
  \<comment> \<open>\<open>re.search(r'[.!?:"\']\s*$', buffer)\<close>: some terminal character is followed by
      white space only up to the end of the buffer\<close>
  "ends_terminal buffer =
     (case rev (rstrip buffer) of [] \<Rightarrow> False | c # _ \<Rightarrow> c \<in> terminal_chars)"

definition trimmed_lines :: "string \<Rightarrow> string list" where
  \<comment> \<open>\<open>[line.strip() for line in raw_text.splitlines() if line.strip()]\<close>\<close>
  "trimmed_lines raw_text = map strip (filter (\<lambda>line. strip line \<noteq> []) (splitlines raw_text))"

text \<open>The loop of \<open>merge_lines\<close>, on the state \<open>(merged, buffer)\<close>.\<close>

fun merge_loop :: "string list \<Rightarrow> string \<Rightarrow> string list \<Rightarrow> string list \<times> string" where
  "merge_loop merged buffer [] = (merged, buffer)"
| "merge_loop merged buffer (line # lines) =
     (if buffer = [] then merge_loop merged line lines
      else if ends_terminal buffer then merge_loop (merged @ [buffer]) line lines
      else merge_loop merged (buffer @ '' '' @ line) lines)"

definition merge_lines :: "string \<Rightarrow> string" where
  "merge_lines raw_text =
     (let (merged, buffer) = merge_loop [] [] (trimmed_lines raw_text);
          merged' = (if buffer \<noteq> [] then merged @ [buffer] else merged)
      in join [CHR 0x0A, CHR 0x0A] merged')"

text \<open>
  The reflow as the specification words it: lines are accumulated in a buffer; a buffer that
  ends in terminal punctuation is flushed as a completed unit, otherwise the next line is
  appended after one space; what remains in the buffer at the end is flushed.
\<close>

fun reflow_units_spec :: "string \<Rightarrow> string list \<Rightarrow> string list" where
  "reflow_units_spec buffer [] = (if buffer = [] then [] else [buffer])"
| "reflow_units_spec buffer (line # lines) =
     (if buffer = [] then reflow_units_spec line lines
      else if ends_terminal buffer then buffer # reflow_units_spec line lines
      else reflow_units_spec (buffer @ '' '' @ line) lines)"

definition reflow_spec :: "string \<Rightarrow> string" where
  "reflow_spec raw_text = join [CHR 0x0A, CHR 0x0A] (reflow_units_spec [] (trimmed_lines raw_text))"

section \<open>Objects, attributes and exceptions\<close>

text \<open>
  The extractor receives duck-typed objects and probes them with \<open>hasattr\<close> and
  \<open>getattr\<close>. An attribute that the code probes is an \<open>attr\<close>: \<open>Missing\<close> when the object
  does not have it. Python's \<open>None\<close> is \<^const>\<open>None\<close> of an \<^typ>\<open>'a option\<close>. An access or
  call that the code wraps in \<open>try\<close> is an \<open>attempt\<close>: \<open>Raised msg\<close> is an exception whose
  \<open>str()\<close> is \<open>msg\<close>.
\<close>

datatype 'a attr = Missing | Attr 'a

datatype 'a attempt = Raised string | Returned 'a

datatype error =
    ValueError string
  | AttributeError string

fun has_attr :: "'a attr \<Rightarrow> bool" where
  "has_attr Missing = False"
| "has_attr (Attr _) = True"

fun getattr_default :: "'a attr \<Rightarrow> 'a option" where
  \<comment> \<open>\<open>getattr(obj, name, None)\<close>\<close>
  "getattr_default Missing = None"
| "getattr_default (Attr v) = Some v"

subsection \<open>Page-stream documents (primary backend)\<close>

record span =
  sp_text :: "string option"
  sp_font :: "string option"
  sp_size :: "rat option"
  sp_bbox :: "rat list option"
  sp_flags :: "int option"
  sp_origin :: "(rat \<times> rat) option"
  sp_color :: "int option"
  sp_other :: "(string \<times> string) list"

record text_line =
  ln_spans :: "span list option"

record block =
  bl_type :: "int option"
  bl_lines :: "text_line list option"

record link_annot =
  la_uri :: "string option"
  la_from :: "rat list option"
  la_kind :: "int option"

record base_image =
  bi_image :: "string option"
  bi_width :: "int option"
  bi_height :: "int option"
  bi_ext :: "string option"

record mupdf_page =
  pg_number :: nat
  pg_rotation :: int
  pg_rect :: "rat \<times> rat \<times> rat \<times> rat"
  pg_blocks :: "block list option"
  pg_links :: "link_annot list"
  pg_images :: "nat list"

text \<open>
  \<open>sp_other\<close> holds the keys of a span dictionary beyond the seven the extractor names.
  \<open>pg_blocks\<close> is the \<open>"blocks"\<close> entry of \<open>page.get_text("dict")\<close>, \<open>pg_links\<close> is
  \<open>page.get_links()\<close>, and \<open>pg_images\<close> lists \<open>img[0]\<close>, the cross-reference id, of every
  entry of \<open>page.get_images(full=True)\<close>.
\<close>

subsection \<open>Page-stream documents (alternate backend)\<close>

record alt_page =
  ap_extract_text :: "string attempt attr"

record plumber_page =
  pl_extract_text :: "string option attempt"
  pl_extract_table :: "string option list list option attempt"

record env =
  fitz_importable :: bool
  pdfplumber :: "plumber_page list attempt option"

text \<open>
  The environment of a call: whether \<open>import fitz\<close> succeeds, and what
  \<open>pdfplumber.open(filepath)\<close> gives (\<^const>\<open>None\<close> when \<open>import pdfplumber\<close> fails,
  \<open>Raised\<close> when opening the file raises, otherwise the pages of the opened file).
  \<open>pl_extract_text\<close> is \<open>page.extract_text(layout=True)\<close>, \<open>pl_extract_table\<close> is
  \<open>page.extract_table()\<close>.
\<close>

subsection \<open>Flow documents\<close>

datatype underline = UBool bool | UStyle nat

record docx_color =
  dc_rgb :: "string option attr"

record docx_font =
  df_name :: "string option attr"
  df_size :: "int option"
  df_color :: "docx_color option"
  df_highlight_color :: "string option attr"

record docx_run =
  dr_text :: string
  dr_font :: "docx_font option"
  dr_bold :: "bool option"
  dr_italic :: "bool option"
  dr_underline :: "underline option"

record docx_paragraph =
  dp_text :: string
  dp_style :: "string attr"
  dp_alignment :: "int option attr"
  dp_runs :: "docx_run list attr"

record docx_table =
  dt_style :: "string option"
  dt_rows :: "string list list"

record inline_shape =
  is_embed :: "string attempt"
  is_related_parts :: "(string \<times> string) list"
  is_name :: "string option"
  is_width :: int
  is_height :: int

record drawing =
  dw_blips :: "string option list"

text \<open>
  A length (\<open>df_size\<close>) is a number of English Metric Units, as in the document libraries,
  where a length is an \<open>int\<close>, false when it is zero, and \<open>.pt\<close> divides it by 12700.
  \<open>dp_style\<close> and \<open>dt_style\<close> hold \<open>str()\<close> of the style object. A table is the text of
  its cells, row by row (\<open>cell.text for cell in row.cells\<close>). \<open>is_embed\<close> is the
  relationship id reached through \<open>shape._inline.graphic.graphicData.pic.blipFill.blip\<close>,
  \<open>is_related_parts\<close> the blobs of \<open>shape.part.related_parts\<close>, \<open>is_name\<close> the \<open>name\<close>
  entry of \<open>docPr\<close>. \<open>dw_blips\<close> lists the \<open>embed\<close> attribute of every \<open>a:blip\<close> below a
  drawing element.
\<close>

subsection \<open>Slide decks\<close>

record pptx_color =
  pc_rgb :: "string option attr"

record pptx_font =
  pf_name :: "string option"
  pf_size :: "int option"
  pf_bold :: "bool option"
  pf_italic :: "bool option"
  pf_underline :: "underline option"
  pf_color :: "pptx_color option"

record pptx_run =
  pr_text :: string
  pr_font :: "pptx_font option"

record pptx_paragraph =
  pp_text :: string
  pp_alignment :: "int option"
  pp_runs :: "pptx_run list"

record text_frame =
  tf_paragraphs :: "pptx_paragraph list"

record click_action =
  ca_hyperlink :: "string option attr"

datatype mso_shape_type = PICTURE | GROUP | AUTO_SHAPE | TEXT_BOX | TABLE

datatype mso_fill = FILL_PICTURE | FILL_SOLID | FILL_GRADIENT | FILL_BACKGROUND

record image =
  im_blob :: string
  im_ext :: string
  im_width :: int
  im_height :: int

record image_part =
  ip_blob :: string
  ip_ext :: "string attr"

record fill =
  fl_type :: "mso_fill option"
  fl_picture :: "image attempt"

record shape_attrs =
  sh_shape_id :: "int attr"
  sh_left :: "int attr"
  sh_top :: "int attr"
  sh_width :: "int attr"
  sh_height :: "int attr"
  sh_text_frame :: "text_frame option attr"
  sh_text :: "string attr"
  sh_click_action :: "click_action option attr attempt"
  sh_shape_type :: "mso_shape_type attr"
  sh_image :: "image attempt"
  sh_fill :: "fill attr"
  sh_blips :: "string option list attempt"
  sh_related_parts :: "(string \<times> image_part) list attr attempt"
  sh_has_table :: "bool attempt"
  sh_table :: "string list list attempt"

datatype shape = Shape (attrs: shape_attrs) (shapes: "shape list attr")

record relationship =
  rel_reltype :: string
  rel_rId :: string
  rel_target_part :: "image_part attempt"

record slide =
  sl_shapes :: "shape list"
  sl_rels :: "relationship list"

text \<open>
  A shape is its own attributes and, when it has the attribute \<open>shapes\<close>, its child shapes.
  \<open>ca_hyperlink\<close> holds \<open>str()\<close> of the hyperlink object, which is false when that is
  empty. \<open>sh_blips\<close> is \<open>shape.element.xpath(".//a:blip")\<close>, each blip given by its
  \<open>embed\<close> attribute; \<open>sh_related_parts\<close> is \<open>shape.part.related_parts\<close>;
  \<open>sh_image\<close> is \<open>shape.image\<close> with the four fields read from it, \<open>fl_picture\<close> likewise
  for \<open>shape.fill.picture\<close>; \<open>sh_table\<close> is the cell text of \<open>shape.table\<close>, row by row.
\<close>

subsection \<open>The document handle\<close>

record document =
  page_count :: "nat attr"
  metadata :: "(string \<times> string) list"
  get_page :: "nat \<Rightarrow> mupdf_page"
  extract_image :: "nat \<Rightarrow> base_image"
  pages :: "alt_page list attr"
  paragraphs :: "docx_paragraph list attr"
  inline_shapes :: "inline_shape list attr"
  element :: "drawing list attempt attr"
  part_blobs :: "(string \<times> string) list"
  tables :: "docx_table list attr"
  slides :: "slide list attr"

text \<open>
  The loader hands over one object without a variant tag; the fields of type \<open>attr\<close> are
  the attributes the operations probe. \<open>get_page i\<close> is \<open>document[i]\<close>,
  \<open>element\<close> is \<open>document.element.xpath("//w:drawing")\<close>, and \<open>part_blobs\<close> the blobs of
  \<open>document.part.related_parts\<close>.
\<close>

section \<open>Variant dispatch\<close>

datatype strategy = PageStream | AltPageStream | FlowDocument | SlideDeck

definition is_mupdf :: "env \<Rightarrow> document \<Rightarrow> bool" where
  \<comment> \<open>\<open>try: import fitz; is_mupdf = hasattr(document, "page_count")\<close>,
      \<open>except ImportError: is_mupdf = False\<close>\<close>
  "is_mupdf e document = (if fitz_importable e then has_attr (page_count document) else False)"

definition text_strategy :: "env \<Rightarrow> document \<Rightarrow> strategy option" where
  \<comment> \<open>the \<open>if\<close>/\<open>elif\<close> chain of \<open>extract_text\<close>\<close>
  "text_strategy e document =
     (if is_mupdf e document then Some PageStream
      else if has_attr (pages document) then Some AltPageStream
      else if has_attr (paragraphs document) then Some FlowDocument
      else if has_attr (slides document) then Some SlideDeck
      else None)"

definition links_strategy :: "env \<Rightarrow> document \<Rightarrow> strategy option" where
  \<comment> \<open>the \<open>if\<close>/\<open>elif\<close> chain of \<open>extract_links\<close>\<close>
  "links_strategy e document =
     (if is_mupdf e document then Some PageStream
      else if has_attr (pages document) then Some AltPageStream
      else if has_attr (paragraphs document) then Some FlowDocument
      else if has_attr (slides document) then Some SlideDeck
      else None)"

definition images_strategy :: "env \<Rightarrow> document \<Rightarrow> strategy option" where
  \<comment> \<open>the \<open>if\<close>/\<open>elif\<close> chain of \<open>extract_images\<close>\<close>
  "images_strategy e document =
     (if is_mupdf e document then Some PageStream
      else if has_attr (pages document) then Some AltPageStream
      else if has_attr (inline_shapes document) then Some FlowDocument
      else if has_attr (slides document) then Some SlideDeck
      else None)"

definition tables_strategy :: "document \<Rightarrow> strategy option" where
  \<comment> \<open>the \<open>if\<close>/\<open>elif\<close> chain of \<open>extract_tables\<close>\<close>
  "tables_strategy document =
     (if has_attr (tables document) then Some FlowDocument
      else if has_attr (slides document) then Some SlideDeck
      else if has_attr (page_count document) then Some PageStream
      else None)"

section \<open>Text extraction\<close>

record span_meta =
  sm_text :: string
  sm_font :: string
  sm_size :: rat
  sm_bbox :: "rat list"
  sm_flags :: "int option"
  sm_origin :: "(rat \<times> rat) option"
  sm_color :: "int option"
  sm_bold :: bool
  sm_italic :: bool
  sm_additional :: "(string \<times> string) list"

record pdf_line =
  tl_page :: nat
  tl_rotation :: int
  tl_dimensions :: "rat list"
  tl_line_text :: string
  tl_spans :: "span_meta list"

record run_data =
  rd_text :: string
  rd_font :: "string option"
  rd_size :: "rat option"
  rd_bold :: bool
  rd_italic :: bool
  rd_underline :: underline
  rd_color :: "string option"
  rd_highlight :: "string option attr"

record para_data =
  pd_text :: string
  pd_style :: "string option"
  pd_alignment :: "int option"
  pd_runs :: "run_data list"

record slide_para =
  spd_text :: string
  spd_alignment :: "int option"
  spd_runs :: "run_data list"

record shape_data =
  sd_shape_id :: "int option"
  sd_left :: "int option"
  sd_top :: "int option"
  sd_width :: "int option"
  sd_height :: "int option"
  sd_paragraphs :: "slide_para list attr"
  sd_text :: "string attr"

datatype text_record =
    DocumentMetadata "(string \<times> string) list"
  | PdfLine pdf_line
  | PageText nat string
  | ParagraphText para_data
  | SlideText nat "shape_data list"

text \<open>
  The emitted dictionaries. A field of type \<open>attr\<close> is a key that a dictionary may lack
  (\<open>rd_highlight\<close> is written for flow documents only; \<open>sd_paragraphs\<close> and \<open>sd_text\<close> are
  added to a shape's dictionary only on some paths). A size is a number of points.
\<close>

definition infer_font_style :: "string \<Rightarrow> bool \<times> bool" where
  "infer_font_style font_name =
     (if font_name = [] then (False, False)
      else (contains ''Bold'' font_name,
            contains ''Italic'' font_name \<or> contains ''Oblique'' font_name))"

definition or_default :: "'a \<Rightarrow> 'a option \<Rightarrow> 'a" where
  \<comment> \<open>\<open>d.get(key, default)\<close>, \<^const>\<open>None\<close> standing for a key that is not there\<close>
  "or_default d v = (case v of None \<Rightarrow> d | Some x \<Rightarrow> x)"

definition span_meta_of :: "span \<Rightarrow> span_meta" where
  "span_meta_of sp =
     (let (bold, italic) = infer_font_style (or_default [] (sp_font sp))
      in \<lparr> sm_text = or_default [] (sp_text sp),
           sm_font = or_default [] (sp_font sp),
           sm_size = or_default 0 (sp_size sp),
           sm_bbox = or_default [] (sp_bbox sp),
           sm_flags = sp_flags sp,
           sm_origin = sp_origin sp,
           sm_color = sp_color sp,
           sm_bold = bold,
           sm_italic = italic,
           sm_additional = sp_other sp \<rparr>)"

definition line_records :: "mupdf_page \<Rightarrow> text_line \<Rightarrow> text_record list" where
  "line_records page line =
     (let spans = or_default [] (ln_spans line);
          line_text = join '' '' (map (\<lambda>sp. strip (or_default [] (sp_text sp))) spans);
          line_text = strip (collapse_ws line_text)
      in if line_text = [] then []
         else [PdfLine \<lparr> tl_page = pg_number page + 1,
                         tl_rotation = pg_rotation page,
                         tl_dimensions = (case pg_rect page of (x0, y0, x1, y1) \<Rightarrow> [x0, y0, x1, y1]),
                         tl_line_text = line_text,
                         tl_spans = map span_meta_of spans \<rparr>])"

definition block_records :: "mupdf_page \<Rightarrow> block \<Rightarrow> text_record list" where
  "block_records page b =
     (if bl_type b = Some 0
      then concat (map (line_records page) (or_default [] (bl_lines b)))
      else [])"

definition page_records :: "mupdf_page \<Rightarrow> text_record list" where
  "page_records page = concat (map (block_records page) (or_default [] (pg_blocks page)))"

definition text_page_stream :: "document \<Rightarrow> error + text_record list" where
  "text_page_stream document =
     (case page_count document of
        Missing \<Rightarrow> Inl (AttributeError ''page_count'')
      | Attr n \<Rightarrow>
          Inr (DocumentMetadata (metadata document)
               # concat (map (\<lambda>i. page_records (get_page document i)) [0..<n])))"

fun plumber_text_loop :: "nat \<Rightarrow> plumber_page list \<Rightarrow> text_record list \<times> bool" where
  \<comment> \<open>the loop over \<open>pdf.pages\<close>: what it appended, and whether an exception ended it\<close>
  "plumber_text_loop i [] = ([], False)"
| "plumber_text_loop i (page # rest) =
     (case pl_extract_text page of
        Raised _ \<Rightarrow> ([], True)
      | Returned t \<Rightarrow>
          (let text = (case t of
                         None \<Rightarrow> []
                       | Some s \<Rightarrow> if s = [] then [] else strip (collapse_ws s));
               (more, raised) = plumber_text_loop (i + 1) rest
           in (PageText (i + 1) text # more, raised)))"

definition raw_page_text :: "alt_page \<Rightarrow> string" where
  \<comment> \<open>the body of the loop over \<open>document.pages\<close>, with its \<open>try\<close>\<close>
  "raw_page_text page =
     (case ap_extract_text page of
        Missing \<Rightarrow> merge_lines []
      | Attr (Returned raw_text) \<Rightarrow> merge_lines raw_text
      | Attr (Raised msg) \<Rightarrow> ''Error extracting text: '' @ msg)"

definition raw_pages_text :: "alt_page list \<Rightarrow> text_record list" where
  "raw_pages_text ps = map (\<lambda>(i, page). PageText (i + 1) (raw_page_text page)) (enumerate 0 ps)"

definition text_alt :: "env \<Rightarrow> document \<Rightarrow> error + text_record list" where
  "text_alt e document =
     (case pages document of
        Missing \<Rightarrow> Inl (AttributeError ''pages'')
      | Attr ps \<Rightarrow>
          (case pdfplumber e of
             None \<Rightarrow> Inr (raw_pages_text ps)
           | Some (Raised _) \<Rightarrow> Inr (raw_pages_text ps)
           | Some (Returned pdf_pages) \<Rightarrow>
               (let (text_data, raised) = plumber_text_loop 0 pdf_pages
                in if raised then Inr (text_data @ raw_pages_text ps) else Inr text_data)))"

definition flow_run_data :: "docx_run \<Rightarrow> run_data" where
  "flow_run_data run =
     \<lparr> rd_text = dr_text run,
       rd_font = (case dr_font run of
                    None \<Rightarrow> Some ''DefaultFont''
                  | Some f \<Rightarrow> (case df_name f of Missing \<Rightarrow> Some ''DefaultFont'' | Attr n \<Rightarrow> n)),
       rd_size = (case dr_font run of
                    None \<Rightarrow> Some 11
                  | Some f \<Rightarrow>
                      (case df_size f of
                         None \<Rightarrow> Some 11
                       | Some n \<Rightarrow> if n \<noteq> 0 then Some (of_int n / 12700) else Some 11)),
       rd_bold = (case dr_bold run of None \<Rightarrow> False | Some b \<Rightarrow> b),
       rd_italic = (case dr_italic run of None \<Rightarrow> False | Some b \<Rightarrow> b),
       rd_underline = (case dr_underline run of None \<Rightarrow> UBool False | Some u \<Rightarrow> u),
       rd_color = (case dr_font run of
                     None \<Rightarrow> Some ''000000''
                   | Some f \<Rightarrow>
                       (case df_color f of
                          None \<Rightarrow> Some ''000000''
                        | Some c \<Rightarrow> (case dc_rgb c of Missing \<Rightarrow> Some ''000000'' | Attr v \<Rightarrow> v))),
       rd_highlight = Attr (case dr_font run of
                              None \<Rightarrow> None
                            | Some f \<Rightarrow>
                                (case df_highlight_color f of Missing \<Rightarrow> None | Attr h \<Rightarrow> h)) \<rparr>"

definition flow_para_data :: "docx_paragraph \<Rightarrow> para_data" where
  "flow_para_data para =
     \<lparr> pd_text = (if dp_text para \<noteq> [] then strip (dp_text para) else []),
       pd_style = getattr_default (dp_style para),
       pd_alignment = (case dp_alignment para of Missing \<Rightarrow> None | Attr a \<Rightarrow> a),
       pd_runs = (case dp_runs para of Missing \<Rightarrow> [] | Attr rs \<Rightarrow> map flow_run_data rs) \<rparr>"

definition text_flow :: "document \<Rightarrow> error + text_record list" where
  "text_flow document =
     (case paragraphs document of
        Missing \<Rightarrow> Inl (AttributeError ''paragraphs'')
      | Attr ps \<Rightarrow> Inr (map (\<lambda>para. ParagraphText (flow_para_data para)) ps))"

definition slide_run_data :: "pptx_run \<Rightarrow> run_data" where
  "slide_run_data run =
     \<lparr> rd_text = pr_text run,
       rd_font = (case pr_font run of
                    None \<Rightarrow> Some ''DefaultFont''
                  | Some f \<Rightarrow>
                      (case pf_name f of
                         None \<Rightarrow> Some ''DefaultFont''
                       | Some n \<Rightarrow> if n \<noteq> [] then Some n else Some ''DefaultFont'')),
       rd_size = (case pr_font run of
                    None \<Rightarrow> None
                  | Some f \<Rightarrow>
                      (case pf_size f of
                         None \<Rightarrow> None
                       | Some n \<Rightarrow> if n \<noteq> 0 then Some (of_int n / 12700) else None)),
       rd_bold = (case pr_font run of
                    None \<Rightarrow> False
                  | Some f \<Rightarrow> (case pf_bold f of None \<Rightarrow> False | Some b \<Rightarrow> b)),
       rd_italic = (case pr_font run of
                      None \<Rightarrow> False
                    | Some f \<Rightarrow> (case pf_italic f of None \<Rightarrow> False | Some b \<Rightarrow> b)),
       rd_underline = (case pr_font run of
                         None \<Rightarrow> UBool False
                       | Some f \<Rightarrow> (case pf_underline f of None \<Rightarrow> UBool False | Some u \<Rightarrow> u)),
       rd_color = (case pr_font run of
                     None \<Rightarrow> None
                   | Some f \<Rightarrow>
                       (case pf_color f of
                          None \<Rightarrow> None
                        | Some c \<Rightarrow> (case pc_rgb c of Missing \<Rightarrow> None | Attr v \<Rightarrow> v))),
       rd_highlight = Missing \<rparr>"

definition frame_paragraphs :: "text_frame \<Rightarrow> slide_para list" where
  \<comment> \<open>the loop over \<open>shape.text_frame.paragraphs\<close>: one entry per paragraph whose trimmed
      text is not empty\<close>
  "frame_paragraphs tf =
     concat (map (\<lambda>para.
                    (let runs = map slide_run_data (pp_runs para);
                         para_text = strip (pp_text para)
                     in if para_text \<noteq> []
                        then [\<lparr> spd_text = para_text,
                                spd_alignment = pp_alignment para,
                                spd_runs = runs \<rparr>]
                        else []))
                 (tf_paragraphs tf))"

fun unique_loop :: "slide_para list \<Rightarrow> string set \<Rightarrow> slide_para list \<Rightarrow> slide_para list" where
  \<comment> \<open>the loop that fills \<open>unique_paras\<close>, on the state \<open>(unique_paras, seen_texts)\<close>\<close>
  "unique_loop unique_paras seen_texts [] = unique_paras"
| "unique_loop unique_paras seen_texts (para # rest) =
     (if spd_text para \<notin> seen_texts
      then unique_loop (unique_paras @ [para]) (insert (spd_text para) seen_texts) rest
      else unique_loop unique_paras seen_texts rest)"

definition shape_text_data :: "shape_attrs \<Rightarrow> shape_data" where
  "shape_text_data a =
     (let shape_data = \<lparr> sd_shape_id = getattr_default (sh_shape_id a),
                          sd_left = getattr_default (sh_left a),
                          sd_top = getattr_default (sh_top a),
                          sd_width = getattr_default (sh_width a),
                          sd_height = getattr_default (sh_height a),
                          sd_paragraphs = Missing,
                          sd_text = Missing \<rparr>
      in case sh_text_frame a of
           Attr (Some tf) \<Rightarrow>
             (let unique_paras = unique_loop [] {} (frame_paragraphs tf)
              in shape_data \<lparr> sd_paragraphs := Attr unique_paras,
                              sd_text := Attr (strip (join '' '' (map spd_text unique_paras))) \<rparr>)
         | _ \<Rightarrow>
             (case sh_text a of
                Attr t \<Rightarrow> if t \<noteq> [] then shape_data \<lparr> sd_text := Attr (strip t) \<rparr> else shape_data
              | Missing \<Rightarrow> shape_data))"

definition has_text :: "shape_data \<Rightarrow> bool" where
  \<comment> \<open>\<open>"text" in shape_data and shape_data["text"]\<close>\<close>
  "has_text shape_data = (case sd_text shape_data of Missing \<Rightarrow> False | Attr t \<Rightarrow> t \<noteq> [])"

definition slide_items :: "slide \<Rightarrow> shape_data list" where
  "slide_items sl = filter has_text (map (\<lambda>shape. shape_text_data (attrs shape)) (sl_shapes sl))"

definition slide_text_records :: "nat \<times> slide \<Rightarrow> text_record list" where
  "slide_text_records p =
     (case p of (i, sl) \<Rightarrow>
        (if slide_items sl \<noteq> [] then [SlideText (i + 1) (slide_items sl)] else []))"

definition text_slides :: "document \<Rightarrow> error + text_record list" where
  "text_slides document =
     (case slides document of
        Missing \<Rightarrow> Inl (AttributeError ''slides'')
      | Attr ss \<Rightarrow> Inr (concat (map slide_text_records (enumerate 0 ss))))"

definition extract_text :: "env \<Rightarrow> document \<Rightarrow> error + text_record list" where
  "extract_text e document =
     (case text_strategy e document of
        Some PageStream \<Rightarrow> text_page_stream document
      | Some AltPageStream \<Rightarrow> text_alt e document
      | Some FlowDocument \<Rightarrow> text_flow document
      | Some SlideDeck \<Rightarrow> text_slides document
      | None \<Rightarrow> Inl (ValueError ''Unsupported file type for text extraction''))"

section \<open>Link extraction\<close>















section \<open>Image extraction\<close>

record slide_image =
  si_slide :: nat
  si_image_id :: "int option"
  si_blob :: string
  si_format :: string
  si_width :: "int option"
  si_height :: "int option"

datatype image_record =
    PdfImage nat nat "string option" "int option" "int option" string
  | InlineImage nat string string int int
  | FloatingImage nat string string
  | SlideImage slide_image
  | RelImage nat string string string

text \<open>
  \<open>PdfImage page xref format width height blob\<close>,
  \<open>InlineImage index filename blob width height\<close>, \<open>FloatingImage floating_index rId blob\<close>,
  \<open>SlideImage\<close> of the dictionary of the shape-tree flattener, and
  \<open>RelImage slide rId format blob\<close> are the dictionaries that \<open>extract_images\<close> returns.
\<close>

definition digit_char :: "nat \<Rightarrow> char" where
  "digit_char d = ''0123456789'' ! (d mod 10)"

fun decimal :: "nat \<Rightarrow> string" where
  \<comment> \<open>\<open>str(n)\<close>\<close>
  "decimal n = (if n < 10 then [digit_char n] else decimal (n div 10) @ [digit_char (n mod 10)])"

definition part_ext :: "image_part \<Rightarrow> string" where
  \<comment> \<open>\<open>getattr(image_part, "ext", "unknown")\<close>\<close>
  "part_ext image_part = (case ip_ext image_part of Missing \<Rightarrow> ''unknown'' | Attr ext \<Rightarrow> ext)"

definition picture_record :: "nat \<Rightarrow> shape_attrs \<Rightarrow> image attempt \<Rightarrow> slide_image list" where
  \<comment> \<open>the two \<open>try\<close> blocks that read a decoded image; any exception leaves no record\<close>
  "picture_record slide_index a img =
     (case img of
        Raised _ \<Rightarrow> []
      | Returned decoded \<Rightarrow>
          (case sh_shape_id a of
             Missing \<Rightarrow> []
           | Attr shape_id \<Rightarrow>
               [\<lparr> si_slide = slide_index,
                  si_image_id = Some shape_id,
                  si_blob = b64encode (im_blob decoded),
                  si_format = im_ext decoded,
                  si_width = Some (im_width decoded),
                  si_height = Some (im_height decoded) \<rparr>]))"

definition picture_records :: "nat \<Rightarrow> shape_attrs \<Rightarrow> slide_image list" where
  \<comment> \<open>the first \<open>if\<close>/\<open>elif\<close> of \<open>_extract_ppt_images_from_shape\<close>\<close>
  "picture_records slide_index a =
     (if sh_shape_type a = Attr PICTURE then picture_record slide_index a (sh_image a)
      else (case sh_fill a of
              Missing \<Rightarrow> []
            | Attr f \<Rightarrow>
                if fl_type f = Some FILL_PICTURE
                then picture_record slide_index a (fl_picture f)
                else []))"

definition fallback_records :: "nat \<Rightarrow> shape_attrs \<Rightarrow> slide_image list" where
  \<comment> \<open>the \<open>else\<close> branch of the second \<open>if\<close>: the first \<open>a:blip\<close> of the shape's markup,
      resolved through \<open>shape.part.related_parts\<close>\<close>
  "fallback_records slide_index a =
     (case sh_blips a of
        Raised _ \<Rightarrow> []
      | Returned blips \<Rightarrow>
          (case blips of
             [] \<Rightarrow> []
           | blip # _ \<Rightarrow>
               (case blip of
                  None \<Rightarrow> []
                | Some rId \<Rightarrow>
                    if rId = [] then []
                    else (case sh_related_parts a of
                            Raised _ \<Rightarrow> []
                          | Returned Missing \<Rightarrow> []
                          | Returned (Attr related_parts) \<Rightarrow>
                              (case map_of related_parts rId of
                                 None \<Rightarrow> []
                               | Some image_part \<Rightarrow>
                                   [\<lparr> si_slide = slide_index,
                                      si_image_id = getattr_default (sh_shape_id a),
                                      si_blob = b64encode (ip_blob image_part),
                                      si_format = part_ext image_part,
                                      si_width = None,
                                      si_height = None \<rparr>])))))"

fun extract_ppt_images_from_shape :: "shape \<Rightarrow> nat \<Rightarrow> slide_image list" where
  "extract_ppt_images_from_shape (Shape a children) slide_index =
     picture_records slide_index a
     @ (case children of
          Attr subshapes \<Rightarrow>
            concat (map (\<lambda>subshape. extract_ppt_images_from_shape subshape slide_index) subshapes)
        | Missing \<Rightarrow> fallback_records slide_index a)"

definition slide_rel_images :: "nat \<times> slide \<Rightarrow> image_record list" where
  "slide_rel_images p =
     (case p of (idx, sl) \<Rightarrow>
        concat (map (\<lambda>rel.
                       if contains ''image'' (rel_reltype rel)
                       then (case rel_target_part rel of
                               Raised _ \<Rightarrow> []
                             | Returned image_part \<Rightarrow>
                                 [RelImage (idx + 1) (rel_rId rel)
                                    (part_ext image_part)
                                    (b64encode (ip_blob image_part))])
                       else [])
                    (sl_rels sl)))"

definition extract_images_from_rels :: "slide list \<Rightarrow> image_record list" where
  "extract_images_from_rels ss = concat (map slide_rel_images (enumerate 0 ss))"

definition page_images :: "document \<Rightarrow> nat \<Rightarrow> image_record list" where
  "page_images document i =
     map (\<lambda>xref.
            (let base_image = extract_image document xref
             in PdfImage (i + 1) xref (bi_ext base_image) (bi_width base_image)
                  (bi_height base_image)
                  (case bi_image base_image of
                     None \<Rightarrow> []
                   | Some image_bytes \<Rightarrow>
                       if image_bytes \<noteq> [] then b64encode image_bytes else [])))
         (pg_images (get_page document i))"

definition images_page_stream :: "document \<Rightarrow> error + image_record list" where
  "images_page_stream document =
     (case page_count document of
        Missing \<Rightarrow> Inl (AttributeError ''page_count'')
      | Attr n \<Rightarrow> Inr (concat (map (page_images document) [0..<n])))"

definition images_alt :: "env \<Rightarrow> document \<Rightarrow> error + image_record list" where
  \<comment> \<open>the branch opens the file with the alternate backend, when that can be imported, and
      does nothing with it (\<open>pass\<close>); \<open>images\<close> is returned as it was initialised\<close>
  "images_alt e document =
     (case pdfplumber e of
        None \<Rightarrow> Inr []
      | Some (Raised _) \<Rightarrow> Inr []
      | Some (Returned _) \<Rightarrow> Inr [])"

definition inline_image :: "nat \<times> inline_shape \<Rightarrow> image_record list" where
  "inline_image p =
     (case p of (i, shape) \<Rightarrow>
        (case is_embed shape of
           Raised _ \<Rightarrow> []
         | Returned rId \<Rightarrow>
             (case map_of (is_related_parts shape) rId of
                None \<Rightarrow> []
              | Some image_blob \<Rightarrow>
                  [InlineImage (i + 1)
                     (or_default (''Image'' @ decimal (i + 1)) (is_name shape))
                     (b64encode image_blob) (is_width shape) (is_height shape)])))"

definition floating_image :: "document \<Rightarrow> nat \<times> drawing \<Rightarrow> image_record list" where
  "floating_image document p =
     (case p of (i, d) \<Rightarrow>
        (case dw_blips d of
           [] \<Rightarrow> []
         | None # _ \<Rightarrow> []
         | Some rId # _ \<Rightarrow>
             (case map_of (part_blobs document) rId of
                None \<Rightarrow> []
              | Some image_blob \<Rightarrow> [FloatingImage (i + 1) rId (b64encode image_blob)])))"

definition images_flow :: "document \<Rightarrow> error + image_record list" where
  "images_flow document =
     (case inline_shapes document of
        Missing \<Rightarrow> Inl (AttributeError ''inline_shapes'')
      | Attr shs \<Rightarrow>
          Inr (concat (map inline_image (enumerate 0 shs))
               @ (case element document of
                    Missing \<Rightarrow> []
                  | Attr (Raised _) \<Rightarrow> []
                  | Attr (Returned drawings) \<Rightarrow>
                      concat (map (floating_image document) (enumerate 0 drawings)))))"

definition slide_shape_images :: "nat \<times> slide \<Rightarrow> image_record list" where
  "slide_shape_images p =
     (case p of (i, sl) \<Rightarrow>
        concat (map (\<lambda>shape. map SlideImage (extract_ppt_images_from_shape shape (i + 1)))
                    (sl_shapes sl)))"

definition images_slides :: "document \<Rightarrow> error + image_record list" where
  "images_slides document =
     (case slides document of
        Missing \<Rightarrow> Inl (AttributeError ''slides'')
      | Attr ss \<Rightarrow>
          (let images = concat (map slide_shape_images (enumerate 0 ss))
           in if images = [] then Inr (extract_images_from_rels ss) else Inr images))"

definition extract_images :: "env \<Rightarrow> document \<Rightarrow> error + image_record list" where
  "extract_images e document =
     (case images_strategy e document of
        Some PageStream \<Rightarrow> images_page_stream document
      | Some AltPageStream \<Rightarrow> images_alt e document
      | Some FlowDocument \<Rightarrow> images_flow document
      | Some SlideDeck \<Rightarrow> images_slides document
      | None \<Rightarrow> Inl (ValueError ''Unsupported file type for image extraction''))"

section \<open>Table extraction\<close>

type_synonym cell = "string option"

record table_rec =
  tb_table_index :: "nat option"
  tb_slide :: "nat option"
  tb_page :: "nat option"
  tb_style :: string
  tb_data :: "cell list list"
  tb_rows :: nat
  tb_columns :: nat

datatype table_entry = Table table_rec | Warning string

text \<open>
  A table dictionary, and the warning dictionary of the page-stream path. The keys
  \<open>table_index\<close>, \<open>slide\<close> and \<open>page\<close> are written on some paths only (\<^const>\<open>None\<close>: the
  key is not there). A cell of a grid is a text; the page-table backend may also report
  \<^const>\<open>None\<close> for a cell.
\<close>

definition column_count :: "'a list list \<Rightarrow> nat" where
  \<comment> \<open>\<open>len(table_data[0]) if table_data and table_data[0] else 0\<close>\<close>
  "column_count table_data =
     (if table_data \<noteq> [] \<and> table_data ! 0 \<noteq> [] then length (table_data ! 0) else 0)"

definition cell_grid :: "string list list \<Rightarrow> cell list list" where
  \<comment> \<open>the loop over \<open>table.rows\<close>: \<open>[cell.text.strip() for cell in row.cells]\<close> per row\<close>
  "cell_grid table_rows = map (\<lambda>row. map (\<lambda>cell_text. Some (strip cell_text)) row) table_rows"

definition flow_table :: "nat \<times> docx_table \<Rightarrow> table_entry" where
  "flow_table p =
     (case p of (i, t) \<Rightarrow>
        (let table_style = (case dt_style t of
                              None \<Rightarrow> ''DefaultTableStyle''
                            | Some st \<Rightarrow> if st \<noteq> [] then st else ''DefaultTableStyle'');
             table_data = cell_grid (dt_rows t)
         in Table \<lparr> tb_table_index = Some (i + 1),
                    tb_slide = None,
                    tb_page = None,
                    tb_style = table_style,
                    tb_data = table_data,
                    tb_rows = length table_data,
                    tb_columns = column_count table_data \<rparr>))"

definition tables_flow :: "document \<Rightarrow> error + table_entry list" where
  "tables_flow document =
     (case tables document of
        Missing \<Rightarrow> Inl (AttributeError ''tables'')
      | Attr ts \<Rightarrow> Inr (map flow_table (enumerate 0 ts)))"

fun slide_tables_loop ::
  "nat \<Rightarrow> table_entry list \<times> nat \<Rightarrow> shape list \<Rightarrow> table_entry list \<times> nat" where
  \<comment> \<open>the loop over \<open>slide.shapes\<close> of slide \<open>i\<close>, on the state \<open>(tables, table_counter)\<close>\<close>
  "slide_tables_loop i st [] = st"
| "slide_tables_loop i (tbls, table_counter) (shape # rest) =
     (case sh_has_table (attrs shape) of
        Raised _ \<Rightarrow> slide_tables_loop i (tbls, table_counter) rest
      | Returned False \<Rightarrow> slide_tables_loop i (tbls, table_counter) rest
      | Returned True \<Rightarrow>
          (case sh_table (attrs shape) of
             Raised _ \<Rightarrow> slide_tables_loop i (tbls, table_counter) rest
           | Returned table_rows \<Rightarrow>
               (let table_data = cell_grid table_rows
                in if table_data \<noteq> []
                   then slide_tables_loop i
                          (tbls @ [Table \<lparr> tb_table_index = Some table_counter,
                                            tb_slide = Some (i + 1),
                                            tb_page = None,
                                            tb_style = ''DefaultPPTTable'',
                                            tb_data = table_data,
                                            tb_rows = length table_data,
                                            tb_columns = column_count table_data \<rparr>],
                           table_counter + 1) rest
                   else slide_tables_loop i (tbls, table_counter) rest)))"

fun slides_tables_loop ::
  "table_entry list \<times> nat \<Rightarrow> (nat \<times> slide) list \<Rightarrow> table_entry list \<times> nat" where
  \<comment> \<open>the loop \<open>for i, slide in enumerate(document.slides)\<close>\<close>
  "slides_tables_loop st [] = st"
| "slides_tables_loop st ((i, sl) # rest) =
     slides_tables_loop (slide_tables_loop i st (sl_shapes sl)) rest"

definition tables_slides :: "document \<Rightarrow> error + table_entry list" where
  "tables_slides document =
     (case slides document of
        Missing \<Rightarrow> Inl (AttributeError ''slides'')
      | Attr ss \<Rightarrow> Inr (fst (slides_tables_loop ([], 1) (enumerate 0 ss))))"

fun plumber_tables_loop :: "nat \<Rightarrow> plumber_page list \<Rightarrow> table_entry list \<times> string option" where
  \<comment> \<open>the loop over \<open>pdf.pages\<close>: what it appended, and the message of the exception that
      ended it, if one did\<close>
  "plumber_tables_loop i [] = ([], None)"
| "plumber_tables_loop i (page # rest) =
     (case pl_extract_table page of
        Raised msg \<Rightarrow> ([], Some msg)
      | Returned t \<Rightarrow>
          (let found = (case t of
                          None \<Rightarrow> []
                        | Some table_data \<Rightarrow>
                            if table_data \<noteq> []
                            then [Table \<lparr> tb_table_index = None,
                                          tb_slide = None,
                                          tb_page = Some (i + 1),
                                          tb_style = ''N/A'',
                                          tb_data = table_data,
                                          tb_rows = length table_data,
                                          tb_columns = column_count table_data \<rparr>]
                            else []);
               (more, raised) = plumber_tables_loop (i + 1) rest
           in (found @ more, raised)))"

definition tables_page_stream :: "env \<Rightarrow> table_entry list" where
  "tables_page_stream e =
     (case pdfplumber e of
        None \<Rightarrow>
          [Warning ''pdfplumber not installed. Install pdfplumber for PDF table extraction.'']
      | Some (Raised msg) \<Rightarrow> [Warning (''Error extracting tables with pdfplumber: '' @ msg)]
      | Some (Returned pdf_pages) \<Rightarrow>
          (case plumber_tables_loop 0 pdf_pages of
             (tbls, Some msg) \<Rightarrow>
               tbls @ [Warning (''Error extracting tables with pdfplumber: '' @ msg)]
           | (tbls, None) \<Rightarrow>
               if tbls = [] then [Warning ''No tables found with pdfplumber.''] else tbls))"

definition extract_tables :: "env \<Rightarrow> document \<Rightarrow> error + table_entry list" where
  "extract_tables e document =
     (case tables_strategy document of
        Some FlowDocument \<Rightarrow> tables_flow document
      | Some SlideDeck \<Rightarrow> tables_slides document
      | Some PageStream \<Rightarrow> Inr (tables_page_stream e)
      | _ \<Rightarrow> Inl (ValueError ''Unsupported file type for table extraction''))"

section \<open>Notions used to state the properties\<close>

subsection \<open>Dispatch by a priority list\<close>

datatype marker = PageCount | Pages | Paragraphs | InlineShapes | Tables | Slides

fun exposes :: "document \<Rightarrow> marker \<Rightarrow> bool" where
  "exposes document PageCount = has_attr (page_count document)"
| "exposes document Pages = has_attr (pages document)"
| "exposes document Paragraphs = has_attr (paragraphs document)"
| "exposes document InlineShapes = has_attr (inline_shapes document)"
| "exposes document Tables = has_attr (tables document)"
| "exposes document Slides = has_attr (slides document)"

text \<open>
  Dispatch as the specification words it: the markers are tested in a fixed order and the
  first marker that the handle exposes decides the strategy.
\<close>

fun first_match :: "(marker \<times> strategy) list \<Rightarrow> document \<Rightarrow> strategy option" where
  "first_match [] document = None"
| "first_match ((m, s) # rest) document =
     (if exposes document m then Some s else first_match rest document)"

definition spec_priority :: "(marker \<times> strategy) list" where
  \<comment> \<open>the order the specification gives for all four operations\<close>
  "spec_priority =
     [(PageCount, PageStream), (Pages, AltPageStream),
      (Paragraphs, FlowDocument), (Slides, SlideDeck)]"

definition images_priority :: "(marker \<times> strategy) list" where
  "images_priority =
     [(PageCount, PageStream), (Pages, AltPageStream),
      (InlineShapes, FlowDocument), (Slides, SlideDeck)]"

definition tables_priority :: "(marker \<times> strategy) list" where
  "tables_priority = [(Tables, FlowDocument), (Slides, SlideDeck), (PageCount, PageStream)]"

definition importable :: "env \<Rightarrow> (marker \<times> strategy) list \<Rightarrow> (marker \<times> strategy) list" where
  \<comment> \<open>the page-count marker counts only while the primary page-stream library can be
      imported\<close>
  "importable e table = (if fitz_importable e then table else filter (\<lambda>(m, s). m \<noteq> PageCount) table)"

subsection \<open>Runs with the same formatting\<close>

definition same_formatting :: "docx_run \<Rightarrow> pptx_run \<Rightarrow> bool" where
  \<comment> \<open>a run of a flow document and a run of a slide deck that carry the same text and the
      same font name, size, colour, bold, italic and underline settings\<close>
  "same_formatting d p =
     (dr_text d = pr_text p \<and>
      (case (dr_font d, pr_font p) of
         (None, None) \<Rightarrow> dr_bold d = None \<and> dr_italic d = None \<and> dr_underline d = None
       | (Some df, Some pf) \<Rightarrow>
           df_name df = Attr (pf_name pf) \<and> df_size df = pf_size pf \<and>
           (case (df_color df, pf_color pf) of
              (None, None) \<Rightarrow> True
            | (Some dc, Some pc) \<Rightarrow> dc_rgb dc = pc_rgb pc
            | _ \<Rightarrow> False) \<and>
           dr_bold d = pf_bold pf \<and> dr_italic d = pf_italic pf \<and>
           dr_underline d = pf_underline pf
       | _ \<Rightarrow> False))"

definition name_present :: "pptx_run \<Rightarrow> bool" where
  \<comment> \<open>the run has a font with a name that is not empty\<close>
  "name_present p =
     (case pr_font p of
        None \<Rightarrow> False
      | Some f \<Rightarrow> (case pf_name f of None \<Rightarrow> False | Some n \<Rightarrow> n \<noteq> []))"

definition size_present :: "pptx_run \<Rightarrow> bool" where
  \<comment> \<open>the run has a font with a size that is not zero\<close>
  "size_present p =
     (case pr_font p of
        None \<Rightarrow> False
      | Some f \<Rightarrow> (case pf_size f of None \<Rightarrow> False | Some n \<Rightarrow> n \<noteq> 0))"

definition color_present :: "pptx_run \<Rightarrow> bool" where
  \<comment> \<open>the run has a font with a colour object that has the attribute \<open>rgb\<close>\<close>
  "color_present p =
     (case pr_font p of
        None \<Rightarrow> False
      | Some f \<Rightarrow> (case pf_color f of None \<Rightarrow> False | Some c \<Rightarrow> has_attr (pc_rgb c)))"

subsection \<open>Pictures\<close>



subsection \<open>Counts and sources of table records\<close>

definition well_counted :: "table_entry \<Rightarrow> bool" where
  \<comment> \<open>\<open>rows\<close> is the number of rows of the grid, \<open>columns\<close> the length of its first row,
      or 0 for the empty grid; a warning carries no counts\<close>
  "well_counted entry =
     (case entry of
        Warning _ \<Rightarrow> True
      | Table t \<Rightarrow>
          tb_rows t = length (tb_data t) \<and>
          tb_columns t = (case tb_data t of [] \<Rightarrow> 0 | row # _ \<Rightarrow> length row))"

definition shape_grids :: "shape \<Rightarrow> cell list list list" where
  "shape_grids sh =
     (case sh_table (attrs sh) of Raised _ \<Rightarrow> [] | Returned table_rows \<Rightarrow> [cell_grid table_rows])"

definition page_grids :: "plumber_page \<Rightarrow> cell list list list" where
  "page_grids pg =
     (case pl_extract_table pg of
        Raised _ \<Rightarrow> []
      | Returned None \<Rightarrow> []
      | Returned (Some table_data) \<Rightarrow> [table_data])"

definition source_grids :: "env \<Rightarrow> document \<Rightarrow> cell list list list" where
  \<comment> \<open>the grids of the source that table extraction can draw on: the trimmed cell texts of
      every table of a flow document or of a slide deck, row by row, and the grids that the
      page-table backend reports\<close>
  "source_grids e document =
     (case tables_strategy document of
        Some FlowDocument \<Rightarrow>
          (case tables document of
             Missing \<Rightarrow> []
           | Attr ts \<Rightarrow> map (\<lambda>t. cell_grid (dt_rows t)) ts)
      | Some SlideDeck \<Rightarrow>
          (case slides document of
             Missing \<Rightarrow> []
           | Attr ss \<Rightarrow> concat (map (\<lambda>sl. concat (map shape_grids (sl_shapes sl))) ss))
      | Some PageStream \<Rightarrow>
          (case pdfplumber e of
             Some (Returned pdf_pages) \<Rightarrow> concat (map page_grids pdf_pages)
           | _ \<Rightarrow> [])
      | _ \<Rightarrow> [])"

subsection \<open>First occurrences\<close>

text \<open>
  De-duplication as the specification words it: of the paragraphs with the same text, the
  first one is kept and every later one is dropped.
\<close>

fun first_occurrences :: "slide_para list \<Rightarrow> slide_para list" where
  "first_occurrences [] = []"
| "first_occurrences (p # ps) =
     p # first_occurrences (filter (\<lambda>q. spd_text q \<noteq> spd_text p) ps)"

subsection \<open>Keys of link records\<close>




subsection \<open>Example objects\<close>

definition blank_page :: mupdf_page where
  "blank_page =
     \<lparr> pg_number = 0, pg_rotation = 0, pg_rect = (0, 0, 612, 792),
       pg_blocks = Some [], pg_links = [], pg_images = [] \<rparr>"

definition bare_document :: document where
  \<comment> \<open>an object with none of the probed attributes\<close>
  "bare_document =
     \<lparr> page_count = Missing, metadata = [], get_page = (\<lambda>_. blank_page),
       extract_image = (\<lambda>_. \<lparr> bi_image = None, bi_width = None, bi_height = None,
                                bi_ext = None \<rparr>),
       pages = Missing, paragraphs = Missing, inline_shapes = Missing, element = Missing,
       part_blobs = [], tables = Missing, slides = Missing \<rparr>"

definition plain_env :: env where
  \<comment> \<open>the primary page-stream library is installed, the alternate backend is not\<close>
  "plain_env = \<lparr> fitz_importable = True, pdfplumber = None \<rparr>"

definition unformatted_docx_run :: docx_run where
  \<comment> \<open>a run of a flow document with no formatting of its own: the font object is there,
      and its name, size and colour value are \<open>None\<close>\<close>
  "unformatted_docx_run =
     \<lparr> dr_text = ''Hello'',
       dr_font = Some \<lparr> df_name = Attr None, df_size = None,
                        df_color = Some \<lparr> dc_rgb = Attr None \<rparr>,
                        df_highlight_color = Attr None \<rparr>,
       dr_bold = None, dr_italic = None, dr_underline = None \<rparr>"

definition unformatted_pptx_run :: pptx_run where
  "unformatted_pptx_run =
     \<lparr> pr_text = ''Hello'',
       pr_font = Some \<lparr> pf_name = None, pf_size = None, pf_bold = None, pf_italic = None,
                        pf_underline = None, pf_color = Some \<lparr> pc_rgb = Attr None \<rparr> \<rparr> \<rparr>"

definition arial_docx_run :: docx_run where
  \<comment> \<open>a bold run in Arial, with no size and no colour\<close>
  "arial_docx_run =
     \<lparr> dr_text = ''Hello'',
       dr_font = Some \<lparr> df_name = Attr (Some ''Arial''), df_size = None, df_color = None,
                        df_highlight_color = Attr None \<rparr>,
       dr_bold = Some True, dr_italic = None, dr_underline = None \<rparr>"

definition arial_pptx_run :: pptx_run where
  "arial_pptx_run =
     \<lparr> pr_text = ''Hello'',
       pr_font = Some \<lparr> pf_name = Some ''Arial'', pf_size = None, pf_bold = Some True,
                        pf_italic = None, pf_underline = None, pf_color = None \<rparr> \<rparr>"

definition bare_shape :: shape_attrs where
  \<comment> \<open>a shape object with none of the probed attributes; what the code reaches through
      an unguarded access raises\<close>
  "bare_shape =
     \<lparr> sh_shape_id = Missing, sh_left = Missing, sh_top = Missing, sh_width = Missing,
       sh_height = Missing, sh_text_frame = Missing, sh_text = Missing,
       sh_click_action = Returned Missing, sh_shape_type = Missing,
       sh_image = Raised ''image'', sh_fill = Missing, sh_blips = Raised ''element'',
       sh_related_parts = Raised ''part'', sh_has_table = Raised ''has_table'',
       sh_table = Raised ''table'' \<rparr>"







definition table_deck :: document where
  \<comment> \<open>a slide deck with one table shape; the second row of the table is shorter than the
      first\<close>
  "table_deck =
     bare_document
       \<lparr> slides :=
           Attr [\<lparr> sl_shapes =
                     [Shape (bare_shape
                               \<lparr> sh_has_table := Returned True,
                                 sh_table := Returned [[''Name'', ''Grade'', ''Remark''],
                                                       [''Alice'', '' X '']] \<rparr>)
                        Missing],
                   sl_rels = [] \<rparr>] \<rparr>"

definition twice_frame :: text_frame where
  \<comment> \<open>a text container with the paragraph \<open>Agenda\<close> twice, first in Arial and then in
      Courier, an empty paragraph, and the paragraph \<open>Goals\<close>\<close>
  "twice_frame =
     \<lparr> tf_paragraphs =
         [\<lparr> pp_text = ''Agenda'', pp_alignment = None,
            pp_runs = [\<lparr> pr_text = ''Agenda'',
                         pr_font = Some \<lparr> pf_name = Some ''Arial'', pf_size = None,
                                          pf_bold = None, pf_italic = None,
                                          pf_underline = None, pf_color = None \<rparr> \<rparr>] \<rparr>,
          \<lparr> pp_text = '' Agenda '', pp_alignment = None,
            pp_runs = [\<lparr> pr_text = '' Agenda '',
                         pr_font = Some \<lparr> pf_name = Some ''Courier'', pf_size = None,
                                          pf_bold = None, pf_italic = None,
                                          pf_underline = None, pf_color = None \<rparr> \<rparr>] \<rparr>,
          \<lparr> pp_text = ''  '', pp_alignment = None, pp_runs = [] \<rparr>,
          \<lparr> pp_text = ''Goals'', pp_alignment = None, pp_runs = [] \<rparr>] \<rparr>"

definition twice_deck :: document where
  \<comment> \<open>a slide deck: the first slide holds only a shape without any text, the second the
      shape with the text container above and a shape whose text is blank\<close>
  "twice_deck =
     bare_document
       \<lparr> slides :=
           Attr [\<lparr> sl_shapes = [Shape bare_shape Missing], sl_rels = [] \<rparr>,
                 \<lparr> sl_shapes =
                     [Shape (bare_shape \<lparr> sh_shape_id := Attr 5,
                                          sh_text_frame := Attr (Some twice_frame) \<rparr>) Missing,
                      Shape (bare_shape \<lparr> sh_text := Attr ''  '' \<rparr>) Missing],
                   sl_rels = [] \<rparr>] \<rparr>"

section \<open>Properties of the text reflow heuristic\<close>

lemma merge_loop_units:
  "(case merge_loop merged buffer lines of (m, b) \<Rightarrow> (if b \<noteq> [] then m @ [b] else m))
     = merged @ reflow_units_spec buffer lines"
  by (induction lines arbitrary: merged buffer) auto

text \<open>
  Claim C9. For every input string, \<open>merge_lines\<close> returns what the reflow of the
  specification returns: the trimmed non-empty lines are accumulated in a buffer, the buffer
  is flushed as a unit when it ends in one of \<open>. ! ? : " '\<close> (white space may follow),
  otherwise the next line is appended after a single space, the remaining buffer is flushed
  at the end, and the units are joined with a blank line between them.
\<close>

theorem merge_lines_refines_reflow_spec:
  "merge_lines raw_text = reflow_spec raw_text"
proof -
  obtain m b where mb: "merge_loop [] [] (trimmed_lines raw_text) = (m, b)"
    by (cases "merge_loop [] [] (trimmed_lines raw_text)")
  have "(if b \<noteq> [] then m @ [b] else m) = reflow_units_spec [] (trimmed_lines raw_text)"
    using merge_loop_units [of "[]" "[]" "trimmed_lines raw_text"] mb by simp
  then show ?thesis
    by (simp add: merge_lines_def reflow_spec_def mb)
qed

theorem merge_lines_refines_reflow_spec_witness:
  "merge_lines (''Hello'' @ [CHR 0x0A] @ ''world.  '' @ [CHR 0x0D, CHR 0x0A, CHR 0x0A] @ '' Next'')
     = ''Hello world.'' @ [CHR 0x0A, CHR 0x0A] @ ''Next''"
proof -
  have "reflow_spec (''Hello'' @ [CHR 0x0A] @ ''world.  '' @ [CHR 0x0D, CHR 0x0A, CHR 0x0A] @ '' Next'')
          = ''Hello world.'' @ [CHR 0x0A, CHR 0x0A] @ ''Next''"
    by (simp add: reflow_spec_def trimmed_lines_def splitlines_def strip_def lstrip_def
        rstrip_def is_space_def is_linebreak_def ends_terminal_def terminal_chars_def)
  then show ?thesis
    using merge_lines_refines_reflow_spec
      [of "''Hello'' @ [CHR 0x0A] @ ''world.  '' @ [CHR 0x0D, CHR 0x0A, CHR 0x0A] @ '' Next''"]
    by simp
qed

section \<open>Properties of the variant dispatch\<close>

text \<open>
  Claim C1, as amended. Each operation tests its own markers in its own fixed order and the
  first match decides: text and link extraction test page count, page collection, paragraph
  collection, slide collection; image extraction tests page count, page collection,
  inline-shape collection, slide collection; table extraction tests table collection (flow
  document), slide collection, page count, and has no alternate page-stream route. In text,
  link and image extraction the page-count marker counts only while the primary page-stream
  library can be imported.
\<close>

theorem dispatch_by_operation:
  "text_strategy e d = first_match (importable e spec_priority) d \<and>
   links_strategy e d = first_match (importable e spec_priority) d \<and>
   images_strategy e d = first_match (importable e images_priority) d \<and>
   tables_strategy d = first_match tables_priority d"
  by (simp add: text_strategy_def links_strategy_def images_strategy_def tables_strategy_def
      is_mupdf_def importable_def spec_priority_def images_priority_def tables_priority_def)

theorem dispatch_by_operation_witness:
  "text_strategy plain_env (bare_document \<lparr> pages := Attr [], slides := Attr [] \<rparr>)
     = Some AltPageStream \<and>
   tables_strategy (bare_document \<lparr> pages := Attr [], slides := Attr [] \<rparr>) = Some SlideDeck"
  using dispatch_by_operation
    [of plain_env "bare_document \<lparr> pages := Attr [], slides := Attr [] \<rparr>"]
  by (simp add: importable_def spec_priority_def tables_priority_def plain_env_def
      bare_document_def)

text \<open>
  Claim C1, as stated, fails: a handle that exposes both the page count and the slide
  collection is routed to the page-stream strategy by the order of the specification and
  by text extraction, but table extraction routes it to the slide-deck strategy (and
  returns the tables of its slides, here none, instead of the page-stream result).
\<close>

theorem tables_dispatch_counterexample:
  "first_match spec_priority (bare_document \<lparr> page_count := Attr 0, slides := Attr [] \<rparr>)
     = Some PageStream \<and>
   text_strategy plain_env (bare_document \<lparr> page_count := Attr 0, slides := Attr [] \<rparr>)
     = Some PageStream \<and>
   tables_strategy (bare_document \<lparr> page_count := Attr 0, slides := Attr [] \<rparr>)
     = Some SlideDeck \<and>
   extract_tables plain_env (bare_document \<lparr> page_count := Attr 0, slides := Attr [] \<rparr>)
     = Inr []"
  by (simp add: spec_priority_def text_strategy_def tables_strategy_def is_mupdf_def
      extract_tables_def tables_slides_def plain_env_def bare_document_def enumerate_eq_zip)



text \<open>
  Claim C10. A handle with a page collection and no page count is dispatched to the
  alternate page-stream backend by image extraction, which returns the empty list whatever
  the document holds and whatever the environment.
\<close>

theorem alternate_backend_images_empty:
  "has_attr (pages d) \<Longrightarrow> page_count d = Missing \<Longrightarrow> extract_images e d = Inr []"
  by (simp add: extract_images_def images_strategy_def is_mupdf_def images_alt_def
      split: option.split attempt.split)

theorem alternate_backend_images_empty_witness:
  "extract_images plain_env (bare_document \<lparr> pages := Attr [\<lparr> ap_extract_text = Missing \<rparr>] \<rparr>)
     = Inr []"
  using alternate_backend_images_empty
    [of "bare_document \<lparr> pages := Attr [\<lparr> ap_extract_text = Missing \<rparr>] \<rparr>" plain_env]
  by (simp add: bare_document_def)

section \<open>Properties of run extraction\<close>

text \<open>
  Claim C3, evaluated where the code departs from it. A run of a flow document whose font
  has no name set (the attribute \<open>name\<close> is there and holds \<open>None\<close>) gets the font
  \<open>None\<close>, not the placeholder, because the code tests \<open>hasattr(run.font, "name")\<close>; the
  colour is \<open>None\<close> in the same way when the colour object holds no \<open>rgb\<close> value.
  Slide-deck extraction tests the value of the name and gives the placeholder for the same
  run.
\<close>

theorem flow_run_absent_font_name:
  "rd_font (flow_run_data unformatted_docx_run) = None \<and>
   rd_color (flow_run_data unformatted_docx_run) = None \<and>
   rd_size (flow_run_data unformatted_docx_run) = Some 11 \<and>
   rd_font (slide_run_data unformatted_pptx_run) = Some ''DefaultFont''"
  by (simp add: flow_run_data_def slide_run_data_def unformatted_docx_run_def
      unformatted_pptx_run_def)

text \<open>
  Claim C4, as stated, fails: for a bold Arial run with no size and no colour, formatted
  the same in a flow document and in a slide deck, flow extraction reports size 11 and
  colour \<open>000000\<close> where slide-deck extraction reports \<open>None\<close> for both.
\<close>

theorem run_records_differ_counterexample:
  "same_formatting arial_docx_run arial_pptx_run \<and>
   rd_size (flow_run_data arial_docx_run) = Some 11 \<and>
   rd_size (slide_run_data arial_pptx_run) = None \<and>
   rd_color (flow_run_data arial_docx_run) = Some ''000000'' \<and>
   rd_color (slide_run_data arial_pptx_run) = None"
  by (simp add: same_formatting_def flow_run_data_def slide_run_data_def arial_docx_run_def
      arial_pptx_run_def)

text \<open>
  Claim C4, as amended. For a run of a slide deck and a run of a flow document with the
  same formatting, the two run records agree on text, bold, italic and underline, and on
  font name, size and colour whenever the run has them. Where they are absent the slide-deck
  record holds the placeholder \<open>DefaultFont\<close> for the name, and \<open>None\<close> for the size and
  for the colour, where the flow-document record holds 11 and \<open>000000\<close>; the slide-deck
  record has no highlight field.
\<close>

theorem slide_run_agrees_where_present:
  "same_formatting d p \<Longrightarrow>
     rd_text (slide_run_data p) = rd_text (flow_run_data d) \<and>
     rd_bold (slide_run_data p) = rd_bold (flow_run_data d) \<and>
     rd_italic (slide_run_data p) = rd_italic (flow_run_data d) \<and>
     rd_underline (slide_run_data p) = rd_underline (flow_run_data d) \<and>
     (name_present p \<longrightarrow> rd_font (slide_run_data p) = rd_font (flow_run_data d)) \<and>
     (size_present p \<longrightarrow> rd_size (slide_run_data p) = rd_size (flow_run_data d)) \<and>
     (color_present p \<longrightarrow> rd_color (slide_run_data p) = rd_color (flow_run_data d)) \<and>
     (\<not> name_present p \<longrightarrow> rd_font (slide_run_data p) = Some ''DefaultFont'') \<and>
     (\<not> size_present p \<longrightarrow>
        rd_size (slide_run_data p) = None \<and> rd_size (flow_run_data d) = Some 11) \<and>
     (\<not> color_present p \<longrightarrow>
        rd_color (slide_run_data p) = None \<and> rd_color (flow_run_data d) = Some ''000000'') \<and>
     rd_highlight (slide_run_data p) = Missing"
proof -
  assume same: "same_formatting d p"
  note defs = same_formatting_def flow_run_data_def slide_run_data_def
  have same_text: "rd_text (slide_run_data p) = rd_text (flow_run_data d)"
    using same by (simp add: defs)
  have same_bold: "rd_bold (slide_run_data p) = rd_bold (flow_run_data d)"
    using same by (auto simp: defs split: option.splits)
  have same_italic: "rd_italic (slide_run_data p) = rd_italic (flow_run_data d)"
    using same by (auto simp: defs split: option.splits)
  have same_underline: "rd_underline (slide_run_data p) = rd_underline (flow_run_data d)"
    using same by (auto simp: defs split: option.splits)
  have same_font: "name_present p \<longrightarrow> rd_font (slide_run_data p) = rd_font (flow_run_data d)"
    using same by (auto simp: defs name_present_def split: option.splits)
  have same_size: "size_present p \<longrightarrow> rd_size (slide_run_data p) = rd_size (flow_run_data d)"
    using same by (auto simp: defs size_present_def split: option.splits)
  have same_color: "color_present p \<longrightarrow> rd_color (slide_run_data p) = rd_color (flow_run_data d)"
    using same by (auto simp: defs color_present_def split: option.splits attr.splits)
  have no_font: "\<not> name_present p \<longrightarrow> rd_font (slide_run_data p) = Some ''DefaultFont''"
    by (auto simp: slide_run_data_def name_present_def split: option.splits)
  have no_size: "\<not> size_present p \<longrightarrow>
      rd_size (slide_run_data p) = None \<and> rd_size (flow_run_data d) = Some 11"
    using same by (auto simp: defs size_present_def split: option.splits)
  have no_color: "\<not> color_present p \<longrightarrow>
      rd_color (slide_run_data p) = None \<and> rd_color (flow_run_data d) = Some ''000000''"
    using same by (auto simp: defs color_present_def split: option.splits attr.splits)
  have no_highlight: "rd_highlight (slide_run_data p) = Missing"
    by (simp add: slide_run_data_def)
  from same_text same_bold same_italic same_underline same_font same_size same_color
    no_font no_size no_color no_highlight
  show ?thesis by blast
qed

theorem slide_run_agrees_where_present_witness:
  "same_formatting arial_docx_run arial_pptx_run \<and>
   name_present arial_pptx_run \<and> \<not> size_present arial_pptx_run \<and>
   \<not> color_present arial_pptx_run \<and>
   rd_font (slide_run_data arial_pptx_run) = rd_font (flow_run_data arial_docx_run) \<and>
   rd_bold (slide_run_data arial_pptx_run) = rd_bold (flow_run_data arial_docx_run) \<and>
   rd_size (slide_run_data arial_pptx_run) = None \<and>
   rd_size (flow_run_data arial_docx_run) = Some 11"
proof -
  have same: "same_formatting arial_docx_run arial_pptx_run"
    by (simp add: same_formatting_def arial_docx_run_def arial_pptx_run_def)
  have present: "name_present arial_pptx_run \<and> \<not> size_present arial_pptx_run \<and>
      \<not> color_present arial_pptx_run"
    by (simp add: name_present_def size_present_def color_present_def arial_pptx_run_def)
  show ?thesis
    using slide_run_agrees_where_present [OF same] same present by simp
qed

section \<open>Properties of the shape-tree flattener\<close>







section \<open>Properties of link extraction\<close>









section \<open>Properties of table extraction\<close>

lemma column_count_first_row:
  "column_count g = (case g of [] \<Rightarrow> 0 | row # _ \<Rightarrow> length row)"
  by (cases g) (auto simp: column_count_def)

lemma cell_grid_row_lengths: "map length (cell_grid table_rows) = map length table_rows"
  by (simp add: cell_grid_def)

lemma slide_tables_loop_sound:
  "\<forall>x \<in> set tbls. well_counted x \<and> (\<forall>t. x = Table t \<longrightarrow> tb_data t \<in> G) \<Longrightarrow>
   \<forall>sh \<in> set shs. set (shape_grids sh) \<subseteq> G \<Longrightarrow>
   slide_tables_loop i (tbls, c) shs = (tbls', c') \<Longrightarrow>
   \<forall>x \<in> set tbls'. well_counted x \<and> (\<forall>t. x = Table t \<longrightarrow> tb_data t \<in> G)"
proof (induction shs arbitrary: tbls c)
  case Nil
  then show ?case by simp
next
  case (Cons sh rest)
  have rest_ok: "\<forall>sh \<in> set rest. set (shape_grids sh) \<subseteq> G"
    using Cons.prems(2) by simp
  show ?case
  proof (cases "sh_has_table (attrs sh) = Returned True \<and>
                (\<exists>table_rows. sh_table (attrs sh) = Returned table_rows \<and> cell_grid table_rows \<noteq> [])")
    case True
    then obtain table_rows where tr: "sh_table (attrs sh) = Returned table_rows"
      and ne: "cell_grid table_rows \<noteq> []" and ht: "sh_has_table (attrs sh) = Returned True"
      by blast
    let ?new = "Table \<lparr> tb_table_index = Some c, tb_slide = Some (i + 1), tb_page = None,
                         tb_style = ''DefaultPPTTable'', tb_data = cell_grid table_rows,
                         tb_rows = length (cell_grid table_rows),
                         tb_columns = column_count (cell_grid table_rows) \<rparr>"
    have step: "slide_tables_loop i (tbls @ [?new], c + 1) rest = (tbls', c')"
      using Cons.prems(3) tr ne ht by (simp add: Let_def)
    have inG: "cell_grid table_rows \<in> G"
      using Cons.prems(2) tr by (simp add: shape_grids_def)
    have new_ok: "well_counted ?new \<and> (\<forall>t. ?new = Table t \<longrightarrow> tb_data t \<in> G)"
      using inG by (auto simp: well_counted_def column_count_first_row)
    have acc: "\<forall>x \<in> set (tbls @ [?new]). well_counted x \<and> (\<forall>t. x = Table t \<longrightarrow> tb_data t \<in> G)"
      using Cons.prems(1) new_ok by simp
    show ?thesis
      by (rule Cons.IH [OF acc rest_ok step])
  next
    case False
    have step: "slide_tables_loop i (tbls, c) rest = (tbls', c')"
      using Cons.prems(3) False
      by (auto simp: Let_def split: attempt.splits bool.splits if_splits)
    show ?thesis
      by (rule Cons.IH [OF Cons.prems(1) rest_ok step])
  qed
qed

lemma slides_tables_loop_sound:
  "\<forall>x \<in> set tbls. well_counted x \<and> (\<forall>t. x = Table t \<longrightarrow> tb_data t \<in> G) \<Longrightarrow>
   \<forall>p \<in> set iss. \<forall>sh \<in> set (sl_shapes (snd p)). set (shape_grids sh) \<subseteq> G \<Longrightarrow>
   slides_tables_loop (tbls, c) iss = (tbls', c') \<Longrightarrow>
   \<forall>x \<in> set tbls'. well_counted x \<and> (\<forall>t. x = Table t \<longrightarrow> tb_data t \<in> G)"
proof (induction iss arbitrary: tbls c)
  case Nil
  then show ?case by simp
next
  case (Cons p rest)
  obtain i sl where p: "p = (i, sl)" by (cases p)
  obtain t1 c1 where one: "slide_tables_loop i (tbls, c) (sl_shapes sl) = (t1, c1)"
    by (cases "slide_tables_loop i (tbls, c) (sl_shapes sl)")
  have here: "\<forall>sh \<in> set (sl_shapes sl). set (shape_grids sh) \<subseteq> G"
    using Cons.prems(2) p by simp
  have rest_ok: "\<forall>p \<in> set rest. \<forall>sh \<in> set (sl_shapes (snd p)). set (shape_grids sh) \<subseteq> G"
    using Cons.prems(2) by simp
  have acc: "\<forall>x \<in> set t1. well_counted x \<and> (\<forall>t. x = Table t \<longrightarrow> tb_data t \<in> G)"
    by (rule slide_tables_loop_sound [OF Cons.prems(1) here one])
  have step: "slides_tables_loop (t1, c1) rest = (tbls', c')"
    using Cons.prems(3) p one by simp
  show ?case
    by (rule Cons.IH [OF acc rest_ok step])
qed

lemma plumber_tables_loop_sound:
  "\<forall>pg \<in> set pgs. set (page_grids pg) \<subseteq> G \<Longrightarrow>
   plumber_tables_loop i pgs = (tbls, r) \<Longrightarrow>
   \<forall>x \<in> set tbls. well_counted x \<and> (\<forall>t. x = Table t \<longrightarrow> tb_data t \<in> G)"
proof (induction pgs arbitrary: i tbls r)
  case Nil
  then show ?case by simp
next
  case (Cons pg rest)
  have rest_ok: "\<forall>pg \<in> set rest. set (page_grids pg) \<subseteq> G"
    using Cons.prems(1) by simp
  show ?case
  proof (cases "pl_extract_table pg")
    case (Raised msg)
    then show ?thesis using Cons.prems(2) by simp
  next
    case (Returned t)
    obtain more r' where more: "plumber_tables_loop (i + 1) rest = (more, r')"
      by (cases "plumber_tables_loop (i + 1) rest")
    have more_ok: "\<forall>x \<in> set more. well_counted x \<and> (\<forall>t. x = Table t \<longrightarrow> tb_data t \<in> G)"
      by (rule Cons.IH [OF rest_ok more])
    show ?thesis
    proof (cases "\<exists>g. t = Some g \<and> g \<noteq> []")
      case True
      then obtain g where g: "t = Some g" "g \<noteq> []" by blast
      have inG: "g \<in> G"
        using Cons.prems(1) Returned g by (simp add: page_grids_def)
      have tb: "tbls = Table \<lparr> tb_table_index = None, tb_slide = None, tb_page = Some (i + 1),
                                tb_style = ''N/A'', tb_data = g, tb_rows = length g,
                                tb_columns = column_count g \<rparr> # more"
        using Cons.prems(2) Returned g more by simp
      show ?thesis
        using more_ok inG unfolding tb
        by (auto simp: well_counted_def column_count_first_row)
    next
      case False
      have tb: "tbls = more"
        using Cons.prems(2) Returned False more by (auto split: option.splits if_splits)
      show ?thesis using more_ok tb by simp
    qed
  qed
qed

text \<open>
  Claim C8. Every table record that table extraction emits, in any variant, has \<open>rows\<close>
  equal to the number of rows of its grid and \<open>columns\<close> equal to the length of the first
  row of the grid, or 0 when the grid is empty. Its grid is one of the grids of the source:
  the trimmed cell texts of a table, row by row, each row with as many cells as the source
  row has, or the grid as the page-table backend reports it; rows are neither padded nor
  truncated.
\<close>

theorem table_counts:
  "extract_tables e d = Inr ts \<Longrightarrow>
     (\<forall>entry \<in> set ts. well_counted entry) \<and>
     (\<forall>t. Table t \<in> set ts \<longrightarrow> tb_data t \<in> set (source_grids e d)) \<and>
     map length (cell_grid table_rows) = map length table_rows"
proof -
  assume r: "extract_tables e d = Inr ts"
  let ?G = "set (source_grids e d)"
  have main: "\<forall>x \<in> set ts. well_counted x \<and> (\<forall>t. x = Table t \<longrightarrow> tb_data t \<in> ?G)"
  proof (cases "tables_strategy d")
    case None
    then show ?thesis using r by (simp add: extract_tables_def)
  next
    case (Some st)
    show ?thesis
    proof (cases st)
      case FlowDocument
      with Some r have f: "tables_flow d = Inr ts"
        by (simp add: extract_tables_def)
      then obtain tbs where tbs: "tables d = Attr tbs" and ts: "ts = map flow_table (enumerate 0 tbs)"
        by (auto simp: tables_flow_def split: attr.splits)
      have G: "source_grids e d = map (\<lambda>t. cell_grid (dt_rows t)) tbs"
        using Some FlowDocument tbs by (simp add: source_grids_def)
      show ?thesis
        unfolding ts G
        by (auto simp: flow_table_def well_counted_def column_count_first_row Let_def
            in_set_enumerate_eq)
    next
      case SlideDeck
      with Some r have f: "tables_slides d = Inr ts"
        by (simp add: extract_tables_def)
      then obtain ss where ss: "slides d = Attr ss"
        and ts: "ts = fst (slides_tables_loop ([], 1) (enumerate 0 ss))"
        by (auto simp: tables_slides_def split: attr.splits)
      have G: "source_grids e d = concat (map (\<lambda>sl. concat (map shape_grids (sl_shapes sl))) ss)"
        using Some SlideDeck ss by (simp add: source_grids_def)
      obtain t' c' where loop: "slides_tables_loop ([], 1) (enumerate 0 ss) = (t', c')"
        by (cases "slides_tables_loop ([], 1) (enumerate 0 ss)")
      have src: "\<forall>p \<in> set (enumerate 0 ss). \<forall>sh \<in> set (sl_shapes (snd p)). set (shape_grids sh) \<subseteq> ?G"
        unfolding G by (fastforce simp: in_set_enumerate_eq)
      have "\<forall>x \<in> set t'. well_counted x \<and> (\<forall>t. x = Table t \<longrightarrow> tb_data t \<in> ?G)"
        by (rule slides_tables_loop_sound [OF _ src loop]) simp
      then show ?thesis using ts loop by simp
    next
      case PageStream
      with Some r have ts: "ts = tables_page_stream e"
        by (simp add: extract_tables_def)
      show ?thesis
      proof (cases "pdfplumber e")
        case None
        then show ?thesis using ts by (simp add: tables_page_stream_def well_counted_def)
      next
        case (Some opened)
        note opened = Some
        show ?thesis
        proof (cases opened)
          case (Raised msg)
          then show ?thesis using ts opened by (simp add: tables_page_stream_def well_counted_def)
        next
          case (Returned pgs)
          have G: "source_grids e d = concat (map page_grids pgs)"
            using \<open>tables_strategy d = Some st\<close> PageStream opened Returned
            by (simp add: source_grids_def)
          obtain tbls rr where loop: "plumber_tables_loop 0 pgs = (tbls, rr)"
            by (cases "plumber_tables_loop 0 pgs")
          have src: "\<forall>pg \<in> set pgs. set (page_grids pg) \<subseteq> ?G"
            unfolding G by auto
          have ok: "\<forall>x \<in> set tbls. well_counted x \<and> (\<forall>t. x = Table t \<longrightarrow> tb_data t \<in> ?G)"
            by (rule plumber_tables_loop_sound [OF src loop])
          show ?thesis
            using ts opened Returned loop ok
            by (auto simp: tables_page_stream_def well_counted_def split: option.splits if_splits)
        qed
      qed
    next
      case AltPageStream
      with Some r show ?thesis by (simp add: extract_tables_def)
    qed
  qed
  then show ?thesis
    by (auto simp: cell_grid_row_lengths)
qed

theorem table_counts_witness:
  "extract_tables plain_env table_deck =
     Inr [Table \<lparr> tb_table_index = Some 1, tb_slide = Some 1, tb_page = None,
                   tb_style = ''DefaultPPTTable'',
                   tb_data = [[Some ''Name'', Some ''Grade'', Some ''Remark''],
                              [Some ''Alice'', Some ''X'']],
                   tb_rows = 2, tb_columns = 3 \<rparr>] \<and>
   well_counted (Table \<lparr> tb_table_index = Some 1, tb_slide = Some 1, tb_page = None,
                   tb_style = ''DefaultPPTTable'',
                   tb_data = [[Some ''Name'', Some ''Grade'', Some ''Remark''],
                              [Some ''Alice'', Some ''X'']],
                   tb_rows = 2, tb_columns = 3 \<rparr>)"
proof -
  have run: "extract_tables plain_env table_deck =
     Inr [Table \<lparr> tb_table_index = Some 1, tb_slide = Some 1, tb_page = None,
                   tb_style = ''DefaultPPTTable'',
                   tb_data = [[Some ''Name'', Some ''Grade'', Some ''Remark''],
                              [Some ''Alice'', Some ''X'']],
                   tb_rows = 2, tb_columns = 3 \<rparr>]"
    by (simp add: extract_tables_def tables_strategy_def tables_slides_def table_deck_def
        bare_document_def bare_shape_def enumerate_eq_zip cell_grid_def column_count_def
        strip_def lstrip_def rstrip_def is_space_def Let_def)
  from table_counts [OF run] run show ?thesis
    by simp
qed

section \<open>Properties of slide-deck text extraction\<close>

lemma unique_loop_first_occurrences:
  "unique_loop acc seen ps =
     acc @ first_occurrences (filter (\<lambda>q. spd_text q \<notin> seen) ps)"
proof (induction ps arbitrary: acc seen)
  case Nil
  then show ?case by simp
next
  case (Cons p ps)
  have f: "filter (\<lambda>q. spd_text q \<noteq> spd_text p) (filter (\<lambda>q. spd_text q \<notin> seen) ps)
           = filter (\<lambda>q. spd_text q \<notin> insert (spd_text p) seen) ps"
    by (induction ps) auto
  show ?case
    using Cons.IH [of "acc @ [p]" "insert (spd_text p) seen"] Cons.IH [of acc seen] f
    by simp
qed

lemma first_occurrences_subset: "set (first_occurrences ps) \<subseteq> set ps"
  by (induction ps rule: first_occurrences.induct) auto

lemma first_occurrences_texts:
  "set (map spd_text (first_occurrences ps)) = set (map spd_text ps)"
proof (induction ps rule: first_occurrences.induct)
  case 1
  then show ?case by simp
next
  case (2 p ps)
  have "set (map spd_text (filter (\<lambda>q. spd_text q \<noteq> spd_text p) ps)) \<union> {spd_text p}
        = set (map spd_text ps) \<union> {spd_text p}"
    by auto
  with 2 show ?case by auto
qed

lemma first_occurrences_distinct: "distinct (map spd_text (first_occurrences ps))"
proof (induction ps rule: first_occurrences.induct)
  case 1
  then show ?case by simp
next
  case (2 p ps)
  have "spd_text p \<notin> set (map spd_text (first_occurrences (filter (\<lambda>q. spd_text q \<noteq> spd_text p) ps)))"
    unfolding first_occurrences_texts by auto
  with 2 show ?case by simp
qed

lemma find_filter_other:
  "t \<noteq> u \<Longrightarrow> find (\<lambda>q. spd_text q = t) (filter (\<lambda>q. spd_text q \<noteq> u) ps)
     = find (\<lambda>q. spd_text q = t) ps"
  by (induction ps) auto

lemma first_occurrences_first:
  "p \<in> set (first_occurrences ps) \<Longrightarrow> find (\<lambda>q. spd_text q = spd_text p) ps = Some p"
proof (induction ps rule: first_occurrences.induct)
  case 1
  then show ?case by simp
next
  case (2 x ps)
  show ?case
  proof (cases "p = x")
    case True
    then show ?thesis by simp
  next
    case False
    with 2 have mem: "p \<in> set (first_occurrences (filter (\<lambda>q. spd_text q \<noteq> spd_text x) ps))"
      by simp
    then have "p \<in> set (filter (\<lambda>q. spd_text q \<noteq> spd_text x) ps)"
      using first_occurrences_subset by blast
    then have ne: "spd_text p \<noteq> spd_text x" by simp
    have "find (\<lambda>q. spd_text q = spd_text p) ps = Some p"
      using "2.IH" [OF mem] by (simp add: find_filter_other [OF ne])
    with ne show ?thesis by auto
  qed
qed

lemma last_dropWhile: "dropWhile P xs \<noteq> [] \<Longrightarrow> last (dropWhile P xs) = last xs"
  by (induction xs) (auto split: if_splits)

lemma strip_ends:
  assumes "strip s \<noteq> []"
  shows "\<not> is_space (hd (strip s)) \<and> \<not> is_space (last (strip s))"
proof -
  let ?t = "dropWhile is_space s"
  let ?u = "dropWhile is_space (rev ?t)"
  have st: "strip s = rev ?u"
    by (simp add: strip_def rstrip_def lstrip_def)
  from assms st have u: "?u \<noteq> []" by simp
  have t: "?t \<noteq> []"
  proof
    assume "?t = []"
    with u show False by simp
  qed
  have "last (strip s) = hd ?u"
    using u st by (simp add: last_rev)
  moreover have "\<not> is_space (hd ?u)"
    using u by (rule hd_dropWhile)
  moreover have "hd (strip s) = last ?u"
    using u st by (simp add: hd_rev)
  moreover have "last ?u = last (rev ?t)"
    using u by (rule last_dropWhile)
  moreover have "last (rev ?t) = hd ?t"
    using t by (simp add: last_rev)
  moreover have "\<not> is_space (hd ?t)"
    using t by (rule hd_dropWhile)
  ultimately show ?thesis by simp
qed

lemma strip_fixed:
  assumes "s \<noteq> []" "\<not> is_space (hd s)" "\<not> is_space (last s)"
  shows "strip s = s"
proof -
  from assms obtain c cs where s: "s = c # cs" by (cases s) auto
  with assms have l: "dropWhile is_space s = s" by simp
  from assms have "rev s \<noteq> []" "\<not> is_space (hd (rev s))"
    by (simp_all add: hd_rev)
  then have r: "dropWhile is_space (rev s) = rev s"
    by (cases "rev s") auto
  show ?thesis
    by (simp add: strip_def rstrip_def lstrip_def l r)
qed

lemma join_ends:
  "xs \<noteq> [] \<Longrightarrow> \<forall>x \<in> set xs. x \<noteq> [] \<Longrightarrow>
     join sep xs \<noteq> [] \<and> hd (join sep xs) = hd (hd xs) \<and> last (join sep xs) = last (last xs)"
proof (induction sep xs rule: join.induct)
  case (1 sep)
  then show ?case by simp
next
  case (2 sep x)
  then show ?case by simp
next
  case (3 sep x y ys)
  then have "join sep (y # ys) \<noteq> [] \<and> last (join sep (y # ys)) = last (last (y # ys))"
    by simp
  with 3 show ?case by simp
qed

lemma strip_join_clean:
  assumes "\<forall>x \<in> set xs. x \<noteq> [] \<and> \<not> is_space (hd x) \<and> \<not> is_space (last x)"
  shows "strip (join sep xs) = join sep xs"
proof (cases xs)
  case Nil
  then show ?thesis by (simp add: strip_def rstrip_def lstrip_def)
next
  case (Cons x rest)
  then have ne: "xs \<noteq> []" by simp
  from assms have all: "\<forall>x \<in> set xs. x \<noteq> []" by simp
  from join_ends [OF ne all] have j: "join sep xs \<noteq> []"
    "hd (join sep xs) = hd (hd xs)" "last (join sep xs) = last (last xs)" by simp_all
  have "hd xs \<in> set xs" "last xs \<in> set xs" using ne by simp_all
  with assms have "\<not> is_space (hd (hd xs))" "\<not> is_space (last (last xs))" by blast+
  with j show ?thesis by (simp add: strip_fixed)
qed

lemma frame_paragraphs_clean:
  "p \<in> set (frame_paragraphs tf) \<Longrightarrow>
     spd_text p \<noteq> [] \<and> \<not> is_space (hd (spd_text p)) \<and> \<not> is_space (last (spd_text p))"
  by (auto simp: frame_paragraphs_def Let_def strip_ends split: if_splits)

lemma shape_text_frame:
  assumes "sh_text_frame a = Attr (Some tf)"
  shows "sd_paragraphs (shape_text_data a) = Attr (first_occurrences (frame_paragraphs tf))"
    and "sd_text (shape_text_data a)
           = Attr (join '' '' (map spd_text (first_occurrences (frame_paragraphs tf))))"
proof -
  have u: "unique_loop [] {} (frame_paragraphs tf) = first_occurrences (frame_paragraphs tf)"
    by (simp add: unique_loop_first_occurrences)
  show "sd_paragraphs (shape_text_data a) = Attr (first_occurrences (frame_paragraphs tf))"
    using assms by (simp add: shape_text_data_def Let_def u)
  have clean: "\<forall>x \<in> set (map spd_text (first_occurrences (frame_paragraphs tf))).
      x \<noteq> [] \<and> \<not> is_space (hd x) \<and> \<not> is_space (last x)"
    using first_occurrences_subset [of "frame_paragraphs tf"] frame_paragraphs_clean [of _ tf]
    by auto
  show "sd_text (shape_text_data a)
           = Attr (join '' '' (map spd_text (first_occurrences (frame_paragraphs tf))))"
    using assms by (simp add: shape_text_data_def Let_def u strip_join_clean [OF clean])
qed

lemma slide_records_shape:
  "r \<in> set (slide_text_records p) \<Longrightarrow>
     \<exists>n items. r = SlideText n items \<and> items \<noteq> [] \<and>
       (\<forall>sd \<in> set items. \<exists>t. sd_text sd = Attr t \<and> t \<noteq> [])"
  by (cases p) (auto simp: slide_text_records_def slide_items_def has_text_def
      split: if_splits attr.splits)

lemma slide_present_iff:
  "(\<exists>items. SlideText (Suc i) items \<in> set (concat (map slide_text_records (enumerate 0 ss))))
     \<longleftrightarrow> (i < length ss \<and> slide_items (ss ! i) \<noteq> [])"
proof
  assume "\<exists>items. SlideText (Suc i) items \<in> set (concat (map slide_text_records (enumerate 0 ss)))"
  then show "i < length ss \<and> slide_items (ss ! i) \<noteq> []"
    by (auto simp: slide_text_records_def in_set_enumerate_eq split: if_splits)
next
  assume a: "i < length ss \<and> slide_items (ss ! i) \<noteq> []"
  then have mem: "(i, ss ! i) \<in> set (enumerate 0 ss)"
    by (simp add: in_set_enumerate_eq)
  have "SlideText (Suc i) (slide_items (ss ! i)) \<in> set (slide_text_records (i, ss ! i))"
    using a by (simp add: slide_text_records_def)
  with mem have "SlideText (Suc i) (slide_items (ss ! i))
      \<in> set (concat (map slide_text_records (enumerate 0 ss)))"
    by (auto intro!: bexI [where x = "(i, ss ! i)"])
  then show "\<exists>items. SlideText (Suc i) items \<in> set (concat (map slide_text_records (enumerate 0 ss)))"
    by blast
qed

text \<open>
  Claim C7. For every slide deck, text extraction returns one record for each slide that
  has a surviving shape and none for the other slides; every record holds at least one
  shape and every shape in it has a text that is not empty (a shape that resolves to no
  text is dropped). For a shape with a text container, the paragraph records are the first
  occurrences of the paragraphs with a non-empty trimmed text: their texts are pairwise
  different, each record is the first paragraph of the container with its text (so its
  runs are those of the first occurrence), and the text of the shape is the texts of these
  records joined by single spaces.
\<close>

theorem slide_text_extraction:
  "text_strategy e d = Some SlideDeck \<Longrightarrow> slides d = Attr ss \<Longrightarrow>
   out = concat (map slide_text_records (enumerate 0 ss)) \<Longrightarrow>
     extract_text e d = Inr out \<and>
     (\<forall>r \<in> set out. \<exists>n items. r = SlideText n items \<and> items \<noteq> [] \<and>
        (\<forall>sd \<in> set items. \<exists>t. sd_text sd = Attr t \<and> t \<noteq> [])) \<and>
     (\<forall>i. (\<exists>items. SlideText (Suc i) items \<in> set out)
            \<longleftrightarrow> (i < length ss \<and> slide_items (ss ! i) \<noteq> [])) \<and>
     (sh_text_frame a = Attr (Some tf) \<longrightarrow>
        sd_paragraphs (shape_text_data a) = Attr (first_occurrences (frame_paragraphs tf)) \<and>
        distinct (map spd_text (first_occurrences (frame_paragraphs tf))) \<and>
        (\<forall>p \<in> set (first_occurrences (frame_paragraphs tf)).
           find (\<lambda>q. spd_text q = spd_text p) (frame_paragraphs tf) = Some p) \<and>
        sd_text (shape_text_data a)
          = Attr (join '' '' (map spd_text (first_occurrences (frame_paragraphs tf)))))"
proof -
  assume st: "text_strategy e d = Some SlideDeck" and ss: "slides d = Attr ss"
    and out: "out = concat (map slide_text_records (enumerate 0 ss))"
  have run: "extract_text e d = Inr out"
    using st ss out by (simp add: extract_text_def text_slides_def)
  have recs: "\<forall>r \<in> set out. \<exists>n items. r = SlideText n items \<and> items \<noteq> [] \<and>
        (\<forall>sd \<in> set items. \<exists>t. sd_text sd = Attr t \<and> t \<noteq> [])"
    unfolding out using slide_records_shape by auto
  have present: "\<forall>i. (\<exists>items. SlideText (Suc i) items \<in> set out)
            \<longleftrightarrow> (i < length ss \<and> slide_items (ss ! i) \<noteq> [])"
    unfolding out using slide_present_iff by blast
  have frame: "sh_text_frame a = Attr (Some tf) \<longrightarrow>
        sd_paragraphs (shape_text_data a) = Attr (first_occurrences (frame_paragraphs tf)) \<and>
        distinct (map spd_text (first_occurrences (frame_paragraphs tf))) \<and>
        (\<forall>p \<in> set (first_occurrences (frame_paragraphs tf)).
           find (\<lambda>q. spd_text q = spd_text p) (frame_paragraphs tf) = Some p) \<and>
        sd_text (shape_text_data a)
          = Attr (join '' '' (map spd_text (first_occurrences (frame_paragraphs tf))))"
    using shape_text_frame [of a tf] first_occurrences_distinct [of "frame_paragraphs tf"]
      first_occurrences_first [of _ "frame_paragraphs tf"]
    by blast
  from run recs present frame show ?thesis
    by blast
qed

theorem slide_text_extraction_witness:
  "text_strategy plain_env twice_deck = Some SlideDeck \<and>
   extract_text plain_env twice_deck =
     Inr [SlideText 2
            [\<lparr> sd_shape_id = Some 5, sd_left = None, sd_top = None, sd_width = None,
               sd_height = None,
               sd_paragraphs =
                 Attr [\<lparr> spd_text = ''Agenda'', spd_alignment = None,
                          spd_runs = [\<lparr> rd_text = ''Agenda'', rd_font = Some ''Arial'',
                                        rd_size = None, rd_bold = False, rd_italic = False,
                                        rd_underline = UBool False, rd_color = None,
                                        rd_highlight = Missing \<rparr>] \<rparr>,
                       \<lparr> spd_text = ''Goals'', spd_alignment = None, spd_runs = [] \<rparr>],
               sd_text = Attr ''Agenda Goals'' \<rparr>]]"
proof -
  have st: "text_strategy plain_env twice_deck = Some SlideDeck"
    by (simp add: text_strategy_def is_mupdf_def plain_env_def twice_deck_def
        bare_document_def)
  have ss: "slides twice_deck =
      Attr [\<lparr> sl_shapes = [Shape bare_shape Missing], sl_rels = [] \<rparr>,
            \<lparr> sl_shapes =
                [Shape (bare_shape \<lparr> sh_shape_id := Attr 5,
                                     sh_text_frame := Attr (Some twice_frame) \<rparr>) Missing,
                 Shape (bare_shape \<lparr> sh_text := Attr ''  '' \<rparr>) Missing],
              sl_rels = [] \<rparr>]"
    by (simp add: twice_deck_def bare_document_def)
  have fp: "frame_paragraphs twice_frame =
      [\<lparr> spd_text = ''Agenda'', spd_alignment = None,
         spd_runs = [\<lparr> rd_text = ''Agenda'', rd_font = Some ''Arial'', rd_size = None,
                       rd_bold = False, rd_italic = False, rd_underline = UBool False,
                       rd_color = None, rd_highlight = Missing \<rparr>] \<rparr>,
       \<lparr> spd_text = ''Agenda'', spd_alignment = None,
         spd_runs = [\<lparr> rd_text = '' Agenda '', rd_font = Some ''Courier'', rd_size = None,
                       rd_bold = False, rd_italic = False, rd_underline = UBool False,
                       rd_color = None, rd_highlight = Missing \<rparr>] \<rparr>,
       \<lparr> spd_text = ''Goals'', spd_alignment = None, spd_runs = [] \<rparr>]"
    by (simp add: frame_paragraphs_def twice_frame_def slide_run_data_def strip_def
        lstrip_def rstrip_def is_space_def Let_def)
  have out: "concat (map slide_text_records
        (enumerate 0
           [\<lparr> sl_shapes = [Shape bare_shape Missing], sl_rels = [] \<rparr>,
            \<lparr> sl_shapes =
                [Shape (bare_shape \<lparr> sh_shape_id := Attr 5,
                                     sh_text_frame := Attr (Some twice_frame) \<rparr>) Missing,
                 Shape (bare_shape \<lparr> sh_text := Attr ''  '' \<rparr>) Missing],
              sl_rels = [] \<rparr>])) =
     [SlideText 2
            [\<lparr> sd_shape_id = Some 5, sd_left = None, sd_top = None, sd_width = None,
               sd_height = None,
               sd_paragraphs =
                 Attr [\<lparr> spd_text = ''Agenda'', spd_alignment = None,
                          spd_runs = [\<lparr> rd_text = ''Agenda'', rd_font = Some ''Arial'',
                                        rd_size = None, rd_bold = False, rd_italic = False,
                                        rd_underline = UBool False, rd_color = None,
                                        rd_highlight = Missing \<rparr>] \<rparr>,
                       \<lparr> spd_text = ''Goals'', spd_alignment = None, spd_runs = [] \<rparr>],
               sd_text = Attr ''Agenda Goals'' \<rparr>]]"
    by (simp add: enumerate_eq_zip slide_text_records_def slide_items_def has_text_def
        shape_text_data_def bare_shape_def fp strip_def lstrip_def rstrip_def is_space_def
        Let_def)
  from slide_text_extraction [OF st ss out [symmetric]] st show ?thesis
    by simp
qed

end
